theory Spec2Isabelle
  imports Complex_Main "HOL-Library.Word"
begin

section \<open>The expression checker of the SQL VM: data model\<close>

text \<open>
  The development embeds the type checker and constant folder of package
  \<open>checker\<close> (function \<open>checkExpr\<close> and the functions it dispatches to).
  Packages \<open>ast\<close>, \<open>errors\<close>, \<open>schema\<close> and the decimal library are imported by
  the checker; what the checker needs of them is modelled in this section.

  Covered node kinds: identifiers, the six value nodes, the unary operators
  \<open>+\<close>, \<open>-\<close>, \<open>NOT\<close>, parentheses, and the binary operators \<open>AND\<close>, \<open>OR\<close>,
  the six comparisons, \<open>||\<close> and the five arithmetic operators. \<open>IS\<close>, \<open>LIKE\<close>,
  \<open>IN\<close>, \<open>CAST\<close> and function calls are not part of the embedding.
\<close>

type_synonym byte = "8 word"

subsection \<open>Decimal numbers\<close>

text \<open>
  \<open>decimal.Decimal\<close> is an arbitrary-precision decimal number. Its arithmetic
  is exact, so a value is modelled by the rational number it denotes; the
  representation (coefficient and exponent) is not modelled. \<open>Truncate\<close>
  cuts towards zero, \<open>Round\<close> rounds half away from zero and \<open>QuoRem\<close> is
  the division truncated at the given number of fractional digits together
  with its remainder.
\<close>

type_synonym Decimal = rat

definition decTrunc :: "rat \<Rightarrow> int" where
  "decTrunc x = (if x < 0 then - \<lfloor>- x\<rfloor> else \<lfloor>x\<rfloor>)"

definition Truncate :: "Decimal \<Rightarrow> nat \<Rightarrow> Decimal" where
  "Truncate d p = of_int (decTrunc (d * 10 ^ p)) / 10 ^ p"

definition Round :: "Decimal \<Rightarrow> nat \<Rightarrow> Decimal" where
  "Round d p =
     (if d < 0 then - of_int \<lfloor>- d * 10 ^ p + 1 / 2\<rfloor> / 10 ^ p
      else of_int \<lfloor>d * 10 ^ p + 1 / 2\<rfloor> / 10 ^ p)"

definition QuoRem :: "Decimal \<Rightarrow> Decimal \<Rightarrow> nat \<Rightarrow> Decimal \<times> Decimal" where
  "QuoRem d d2 p = (let q = Truncate (d / d2) p in (q, d - d2 * q))"

definition IsZero :: "Decimal \<Rightarrow> bool" where
  "IsZero d = (d = 0)"

text \<open>
  Modelled from the spec: \<open>MaxIntegerPartDigits\<close>, \<open>MaxFractionalPartDigits\<close>,
  \<open>normalizeDecimal\<close> and \<open>safeDecimalRange\<close> are declared outside the checked
  file. The two digit limits are parameters of the model. Normalisation
  "strips trailing fractional zeros", which leaves the denoted number as it
  is; the range test "caps total significant digits at a fixed maximum".
\<close>

record Limits =
  MaxIntegerPartDigits :: nat
  MaxFractionalPartDigits :: nat

definition normalizeDecimal :: "Decimal \<Rightarrow> Decimal" where
  "normalizeDecimal d = d"

definition safeDecimalRange :: "Limits \<Rightarrow> Decimal \<Rightarrow> bool" where
  "safeDecimalRange lm d =
     (- (10 ^ MaxIntegerPartDigits lm) < d \<and> d < 10 ^ MaxIntegerPartDigits lm)"

subsection \<open>Three-valued booleans\<close>

text \<open>
  Modelled from the spec: \<open>ast.BoolValue\<close> and its methods are declared in
  package \<open>ast\<close>. The values are \<open>True\<close>, \<open>False\<close> and \<open>Unknown\<close> of SQL's
  three-valued logic; the zero value of the Go type (what \<open>var vo ast.BoolValue\<close>
  holds) is none of them and is the only value that is not \<open>Valid\<close>.
  \<open>And\<close>, \<open>Or\<close> and \<open>Not\<close> are the three-valued connectives
  (\<open>AND(False, X) = False\<close>, \<open>OR(True, X) = True\<close>, \<open>NOT(Unknown) = Unknown\<close>);
  the comparisons order \<open>False\<close> below \<open>True\<close> and give \<open>Unknown\<close> when an
  operand is \<open>Unknown\<close>.
\<close>

datatype BoolValue = BoolValueZero | BoolValueTrue | BoolValueFalse | BoolValueUnknown

definition Valid :: "BoolValue \<Rightarrow> bool" where
  "Valid v = (v \<noteq> BoolValueZero)"

definition NewBoolValueFromBool :: "bool \<Rightarrow> BoolValue" where
  "NewBoolValueFromBool b = (if b then BoolValueTrue else BoolValueFalse)"

fun BoolAnd :: "BoolValue \<Rightarrow> BoolValue \<Rightarrow> BoolValue" where
  "BoolAnd BoolValueFalse _ = BoolValueFalse"
| "BoolAnd _ BoolValueFalse = BoolValueFalse"
| "BoolAnd BoolValueTrue BoolValueTrue = BoolValueTrue"
| "BoolAnd _ _ = BoolValueUnknown"

fun BoolOr :: "BoolValue \<Rightarrow> BoolValue \<Rightarrow> BoolValue" where
  "BoolOr BoolValueTrue _ = BoolValueTrue"
| "BoolOr _ BoolValueTrue = BoolValueTrue"
| "BoolOr BoolValueFalse BoolValueFalse = BoolValueFalse"
| "BoolOr _ _ = BoolValueUnknown"

fun BoolNot :: "BoolValue \<Rightarrow> BoolValue" where
  "BoolNot BoolValueTrue = BoolValueFalse"
| "BoolNot BoolValueFalse = BoolValueTrue"
| "BoolNot v = BoolValueUnknown"

fun boolOfValue :: "BoolValue \<Rightarrow> bool option" where
  "boolOfValue BoolValueTrue = Some True"
| "boolOfValue BoolValueFalse = Some False"
| "boolOfValue _ = None"

definition boolCompare :: "(bool \<Rightarrow> bool \<Rightarrow> bool) \<Rightarrow> BoolValue \<Rightarrow> BoolValue \<Rightarrow> BoolValue" where
  "boolCompare f v1 v2 =
     (case (boolOfValue v1, boolOfValue v2) of
        (Some a, Some b) \<Rightarrow> NewBoolValueFromBool (f a b)
      | _ \<Rightarrow> BoolValueUnknown)"

definition BoolGreaterOrEqual :: "BoolValue \<Rightarrow> BoolValue \<Rightarrow> BoolValue" where
  "BoolGreaterOrEqual = boolCompare (\<lambda>a b. b \<le> a)"

definition BoolLessOrEqual :: "BoolValue \<Rightarrow> BoolValue \<Rightarrow> BoolValue" where
  "BoolLessOrEqual = boolCompare (\<lambda>a b. a \<le> b)"

definition BoolNotEqual :: "BoolValue \<Rightarrow> BoolValue \<Rightarrow> BoolValue" where
  "BoolNotEqual = boolCompare (\<lambda>a b. a \<noteq> b)"

definition BoolEqual :: "BoolValue \<Rightarrow> BoolValue \<Rightarrow> BoolValue" where
  "BoolEqual = boolCompare (\<lambda>a b. a = b)"

definition BoolGreater :: "BoolValue \<Rightarrow> BoolValue \<Rightarrow> BoolValue" where
  "BoolGreater = boolCompare (\<lambda>a b. b < a)"

definition BoolLess :: "BoolValue \<Rightarrow> BoolValue \<Rightarrow> BoolValue" where
  "BoolLess = boolCompare (\<lambda>a b. a < b)"

subsection \<open>Data types\<close>

text \<open>
  Modelled from the spec: \<open>ast.DataType\<close>, its major and minor parts and the
  functions on them are declared in package \<open>ast\<close>. A data type is the pair
  of a major (the category) and a minor (an 8-bit parameter). The majors of
  the fixed-point families are "offset by byte-width": \<open>DataTypeMajorFixedPlus k\<close>
  stands for \<open>DataTypeMajorFixed + k\<close>, the signed fixed-point numbers of
  \<open>k + 1\<close> bytes, and likewise for the unsigned family.
\<close>

datatype DataTypeMajor =
    DataTypeMajorPending
  | DataTypeMajorNull
  | DataTypeMajorBad
  | DataTypeMajorBool
  | DataTypeMajorAddress
  | DataTypeMajorInt
  | DataTypeMajorUint
  | DataTypeMajorFixedBytes
  | DataTypeMajorDynamicBytes
  | DataTypeMajorFixedPlus nat
  | DataTypeMajorUfixedPlus nat

type_synonym DataTypeMinor = "8 word"

type_synonym DataType = "DataTypeMajor \<times> DataTypeMinor"

abbreviation DataTypeMajorFixed :: DataTypeMajor where
  "DataTypeMajorFixed \<equiv> DataTypeMajorFixedPlus 0"

abbreviation DataTypeMajorUfixed :: DataTypeMajor where
  "DataTypeMajorUfixed \<equiv> DataTypeMajorUfixedPlus 0"

definition DataTypeMinorDontCare :: DataTypeMinor where
  "DataTypeMinorDontCare = 0"

definition ComposeDataType :: "DataTypeMajor \<Rightarrow> DataTypeMinor \<Rightarrow> DataType" where
  "ComposeDataType major minor = (major, minor)"

definition DecomposeDataType :: "DataType \<Rightarrow> DataTypeMajor \<times> DataTypeMinor" where
  "DecomposeDataType dt = dt"

definition DataTypePending :: DataType where
  "DataTypePending = ComposeDataType DataTypeMajorPending DataTypeMinorDontCare"

definition DataTypeNull :: DataType where
  "DataTypeNull = ComposeDataType DataTypeMajorNull DataTypeMinorDontCare"

definition DataTypeBad :: DataType where
  "DataTypeBad = ComposeDataType DataTypeMajorBad DataTypeMinorDontCare"

definition Pending :: "DataType \<Rightarrow> bool" where
  "Pending dt = (fst (DecomposeDataType dt) = DataTypeMajorPending)"

text \<open>\<open>major + k\<close> on a major of one of the fixed-point families.\<close>

fun majorPlus :: "DataTypeMajor \<Rightarrow> nat \<Rightarrow> DataTypeMajor" where
  "majorPlus (DataTypeMajorFixedPlus j) k = DataTypeMajorFixedPlus (j + k)"
| "majorPlus (DataTypeMajorUfixedPlus j) k = DataTypeMajorUfixedPlus (j + k)"
| "majorPlus major k = major"

fun IsFixedRange :: "DataTypeMajor \<Rightarrow> bool" where
  "IsFixedRange (DataTypeMajorFixedPlus k) = (k < 32)"
| "IsFixedRange _ = False"

fun IsUfixedRange :: "DataTypeMajor \<Rightarrow> bool" where
  "IsUfixedRange (DataTypeMajorUfixedPlus k) = (k < 32)"
| "IsUfixedRange _ = False"

text \<open>
  Modelled from the spec: \<open>GetMinMax\<close>, \<open>DecimalEncode\<close> and \<open>DecimalDecode\<close> of
  package \<open>ast\<close>. A signed type of \<open>w\<close> bytes ranges over
  \<open>[-2^(8w-1), 2^(8w-1) - 1]\<close>, an unsigned one over \<open>[0, 2^(8w) - 1]\<close>; the
  fixed-point types scale both bounds by \<open>10^-digits\<close>. Encoding writes the
  (scaled, truncated) integer as \<open>w\<close> big-endian bytes in two's complement,
  which drops the bits that do not fit; decoding reads them back. Majors
  without a numeric representation are "unsupported".
\<close>

fun GetMinMax :: "DataType \<Rightarrow> (Decimal \<times> Decimal) option" where
  "GetMinMax (DataTypeMajorInt, minor) =
     (let w = unat minor + 1
      in Some (- (2 ^ (8 * w - 1)), 2 ^ (8 * w - 1) - 1))"
| "GetMinMax (DataTypeMajorUint, minor) =
     (let w = unat minor + 1 in Some (0, 2 ^ (8 * w) - 1))"
| "GetMinMax (DataTypeMajorFixedPlus k, minor) =
     (if k < 32
      then Some (- (2 ^ (8 * (k + 1) - 1)) / 10 ^ unat minor,
                 (2 ^ (8 * (k + 1) - 1) - 1) / 10 ^ unat minor)
      else None)"
| "GetMinMax (DataTypeMajorUfixedPlus k, minor) =
     (if k < 32
      then Some (0, (2 ^ (8 * (k + 1)) - 1) / 10 ^ unat minor)
      else None)"
| "GetMinMax _ = None"

fun toBytes :: "nat \<Rightarrow> int \<Rightarrow> byte list" where
  "toBytes w x = (if w = 0 then [] else toBytes (w - 1) (x div 256) @ [word_of_int x])"

declare toBytes.simps [simp del]

definition fromBytes :: "byte list \<Rightarrow> int" where
  "fromBytes bs = foldl (\<lambda>acc b. acc * 256 + uint b) 0 bs"

definition fromBytesSigned :: "byte list \<Rightarrow> int" where
  "fromBytesSigned bs =
     (let u = fromBytes bs; n = 8 * length bs
      in if n \<noteq> 0 \<and> 2 ^ (n - 1) \<le> u then u - 2 ^ n else u)"

fun DecimalEncode :: "DataType \<Rightarrow> Decimal \<Rightarrow> byte list option" where
  "DecimalEncode (DataTypeMajorInt, minor) d = Some (toBytes (unat minor + 1) (decTrunc d))"
| "DecimalEncode (DataTypeMajorUint, minor) d = Some (toBytes (unat minor + 1) (decTrunc d))"
| "DecimalEncode (DataTypeMajorFixedPlus k, minor) d =
     (if k < 32 then Some (toBytes (k + 1) (decTrunc (d * 10 ^ unat minor))) else None)"
| "DecimalEncode (DataTypeMajorUfixedPlus k, minor) d =
     (if k < 32 then Some (toBytes (k + 1) (decTrunc (d * 10 ^ unat minor))) else None)"
| "DecimalEncode _ d = None"

fun DecimalDecode :: "DataType \<Rightarrow> byte list \<Rightarrow> Decimal option" where
  "DecimalDecode (DataTypeMajorInt, minor) b = Some (of_int (fromBytesSigned b))"
| "DecimalDecode (DataTypeMajorUint, minor) b = Some (of_int (fromBytes b))"
| "DecimalDecode (DataTypeMajorFixedPlus k, minor) b =
     (if k < 32 then Some (of_int (fromBytesSigned b) / 10 ^ unat minor) else None)"
| "DecimalDecode (DataTypeMajorUfixedPlus k, minor) b =
     (if k < 32 then Some (of_int (fromBytes b) / 10 ^ unat minor) else None)"
| "DecimalDecode _ b = None"

subsection \<open>Type actions, options and the schema\<close>

text \<open>
  Modelled from the spec: the type actions are declared outside the checked
  file. A type action is "one of: \<open>InferDefault\<close>, \<open>InferWithSize(n)\<close>,
  \<open>InferWithMajor(major)\<close>, \<open>Assign(dt)\<close>"; the \<open>nil\<close> action is \<open>None\<close>
  of \<open>typeAction option\<close>.
\<close>

datatype typeAction =
    typeActionInferDefault
  | typeActionInferWithSize int
  | typeActionInferWithMajor DataTypeMajor
  | typeActionAssign DataType

text \<open>
  Modelled from the spec: \<open>CheckOptions\<close> and the flags are declared
  outside the checked file, the schema in package \<open>schema\<close>.
  \<open>CheckOptions\<close> is "a bit-flag configuration" with the "constant-only
  mode" and the "safe-math mode"; the checker only tests the two flags for
  being set, so each is a boolean here. The schema, the table reference and
  the schema cache together answer one question, \<open>find_column\<close>: the
  declared type of a column of the current table, if there is such a
  column. That is a map here.
\<close>

record CheckOptions =
  CheckWithConstantOnly :: bool
  CheckWithSafeMath :: bool

record Schema =
  TableName :: string
  Columns :: "string \<rightharpoonup> DataType"

subsection \<open>Diagnostics\<close>

text \<open>
  Modelled from the spec: package \<open>errors\<close>. A diagnostics entry is
  "(position, length, category, code, severity, origin-function-name,
  message)" and the list is append-only. The categories and codes are the
  ones that the checker uses; the category and the code of a warning or a
  note are the zero values.
\<close>

datatype ErrorCategory = ErrorCategoryNil | ErrorCategorySemantic

datatype ErrorCode =
    ErrorCodeNil
  | ErrorCodeTypeError
  | ErrorCodeNonConstantExpression
  | ErrorCodeColumnNotFound
  | ErrorCodeConstantTooLong
  | ErrorCodeOverflow
  | ErrorCodeInvalidAddressChecksum
  | ErrorCodeDividedByZero

datatype ErrorSeverity = ErrorSeverityError | ErrorSeverityWarning | ErrorSeverityNote

text \<open>
  A message is a format string with its arguments; each constructor stands
  for one format string of the checker and carries the arguments in the
  order in which the format uses them.
\<close>

datatype Message =
    MsgExpectButTypeGiven DataType DataType
  | MsgIsNotAConstant string
  | MsgCannotFindColumn string string
  | MsgExpectButConstantGiven DataType string
  | MsgConstantTooLong string nat
  | MsgOverflows string Decimal DataType
  | MsgRangeIs DataType Decimal Decimal
  | MsgOverflowsConverted string Decimal DataType Decimal
  | MsgNotAnAddressConstant DataType string
  | MsgHasFractionalPart DataType Decimal
  | MsgCannotInferFixedBytes "byte list" nat
  | MsgExpectButHasBytes DataType "byte list" nat
  | MsgNotDefinedForConstant string string
  | MsgNotDefinedForType string DataType
  | MsgCannotUseOperandType DataType string DataType
  | MsgAlreadyUsedWith string string string
  | MsgCannotUseBetweenBytes string DataTypeMajor DataTypeMajor
  | MsgResultLongerThan32 string DataType DataType
  | MsgConvertBothArguments
  | MsgDivisionByZero

record Error =
  Position :: nat
  Length :: nat
  Category :: ErrorCategory
  Code :: ErrorCode
  Severity :: ErrorSeverity
  Prefix :: string
  Message :: Message

type_synonym ErrorList = "Error list"

definition Append :: "ErrorList \<Rightarrow> Error \<Rightarrow> ErrorList" where
  "Append el e = el @ [e]"

subsection \<open>Expression nodes\<close>

text \<open>
  Modelled from the spec: the node types of package \<open>ast\<close>. Every node has
  a source span (position, length, token) and a mutable data type; a value
  node has its payload, an operator node its children. A node that
  \<open>&ast.T{}\<close> allocates has the zero span and the pending type.
\<close>

record Header =
  NodePosition :: nat
  NodeLength :: nat
  NodeToken :: string
  NodeType :: DataType

definition zeroHeader :: Header where
  "zeroHeader = \<lparr>NodePosition = 0, NodeLength = 0, NodeToken = [], NodeType = DataTypePending\<rparr>"

datatype UnaryOp = PosOperator | NegOperator | NotOperator | ParenOperator

datatype BinaryOp =
    AndOperator
  | OrOperator
  | GreaterOrEqualOperator
  | LessOrEqualOperator
  | NotEqualOperator
  | EqualOperator
  | GreaterOperator
  | LessOperator
  | ConcatOperator
  | AddOperator
  | SubOperator
  | MulOperator
  | DivOperator
  | ModOperator

datatype ExprNode =
    IdentifierNode Header string
  | BoolValueNode Header BoolValue
  | AddressValueNode Header "byte list"
  | IntegerValueNode Header bool Decimal
  | DecimalValueNode Header Decimal
  | BytesValueNode Header "byte list"
  | NullValueNode Header
  | UnaryOperatorNode UnaryOp Header ExprNode
  | BinaryOperatorNode BinaryOp Header ExprNode ExprNode

fun GetHeader :: "ExprNode \<Rightarrow> Header" where
  "GetHeader (IdentifierNode h _) = h"
| "GetHeader (BoolValueNode h _) = h"
| "GetHeader (AddressValueNode h _) = h"
| "GetHeader (IntegerValueNode h _ _) = h"
| "GetHeader (DecimalValueNode h _) = h"
| "GetHeader (BytesValueNode h _) = h"
| "GetHeader (NullValueNode h) = h"
| "GetHeader (UnaryOperatorNode _ h _) = h"
| "GetHeader (BinaryOperatorNode _ h _ _) = h"

fun SetHeader :: "ExprNode \<Rightarrow> Header \<Rightarrow> ExprNode" where
  "SetHeader (IdentifierNode _ x) h = IdentifierNode h x"
| "SetHeader (BoolValueNode _ v) h = BoolValueNode h v"
| "SetHeader (AddressValueNode _ v) h = AddressValueNode h v"
| "SetHeader (IntegerValueNode _ a v) h = IntegerValueNode h a v"
| "SetHeader (DecimalValueNode _ v) h = DecimalValueNode h v"
| "SetHeader (BytesValueNode _ v) h = BytesValueNode h v"
| "SetHeader (NullValueNode _) h = NullValueNode h"
| "SetHeader (UnaryOperatorNode u _ t) h = UnaryOperatorNode u h t"
| "SetHeader (BinaryOperatorNode b _ x y) h = BinaryOperatorNode b h x y"

definition GetPosition :: "ExprNode \<Rightarrow> nat" where
  "GetPosition n = NodePosition (GetHeader n)"

definition GetLength :: "ExprNode \<Rightarrow> nat" where
  "GetLength n = NodeLength (GetHeader n)"

definition GetToken :: "ExprNode \<Rightarrow> string" where
  "GetToken n = NodeToken (GetHeader n)"

definition GetType :: "ExprNode \<Rightarrow> DataType" where
  "GetType n = NodeType (GetHeader n)"

definition SetPosition :: "ExprNode \<Rightarrow> nat \<Rightarrow> ExprNode" where
  "SetPosition n p = SetHeader n ((GetHeader n)\<lparr>NodePosition := p\<rparr>)"

definition SetLength :: "ExprNode \<Rightarrow> nat \<Rightarrow> ExprNode" where
  "SetLength n l = SetHeader n ((GetHeader n)\<lparr>NodeLength := l\<rparr>)"

definition SetToken :: "ExprNode \<Rightarrow> string \<Rightarrow> ExprNode" where
  "SetToken n t = SetHeader n ((GetHeader n)\<lparr>NodeToken := t\<rparr>)"

definition SetType :: "ExprNode \<Rightarrow> DataType \<Rightarrow> ExprNode" where
  "SetType n dt = SetHeader n ((GetHeader n)\<lparr>NodeType := dt\<rparr>)"

text \<open>The nodes that implement \<open>ast.Valuer\<close>: the constants.\<close>

fun isValuer :: "ExprNode \<Rightarrow> bool" where
  "isValuer (IdentifierNode _ _) = False"
| "isValuer (UnaryOperatorNode _ _ _) = False"
| "isValuer (BinaryOperatorNode _ _ _ _) = False"
| "isValuer _ = True"

text \<open>
  A panic of the checker and the exhaustion of the recursion budget of
  \<open>checkExpr\<close> (see below) are the two ways in which a check gives no
  result; a check that returns gives the node, or \<open>None\<close> for \<open>nil\<close>,
  and the diagnostics list.
\<close>

datatype fault = Panic | OutOfFuel

type_synonym checked = "fault + (ExprNode option \<times> ErrorList)"

definition bindF :: "fault + 'a \<Rightarrow> ('a \<Rightarrow> fault + 'b) \<Rightarrow> fault + 'b" where
  "bindF m f = (case m of Inl e \<Rightarrow> Inl e | Inr x \<Rightarrow> f x)"

section \<open>The checker\<close>

subsection \<open>Type actions on nodes whose type is decided\<close>

definition elAppendTypeErrorAssignDataType ::
  "ErrorList \<Rightarrow> ExprNode \<Rightarrow> string \<Rightarrow> DataType \<Rightarrow> DataType \<Rightarrow> ErrorList" where
  "elAppendTypeErrorAssignDataType el n fn dtExpected dtGiven =
     Append el \<lparr>Position = GetPosition n, Length = GetLength n,
       Category = ErrorCategorySemantic, Code = ErrorCodeTypeError,
       Severity = ErrorSeverityError, Prefix = fn,
       Message = MsgExpectButTypeGiven dtExpected dtGiven\<rparr>"

definition verifyTypeAction ::
  "ExprNode \<Rightarrow> string \<Rightarrow> DataType \<Rightarrow> ErrorList \<Rightarrow> typeAction option
   \<Rightarrow> ExprNode option \<times> ErrorList" where
  "verifyTypeAction n fn dt el ta =
     (case ta of
        Some (typeActionAssign adt) \<Rightarrow>
          if dt \<noteq> adt then (None, elAppendTypeErrorAssignDataType el n fn adt dt)
          else (Some n, el)
      | _ \<Rightarrow> (Some n, el))"

text \<open>
  \<open>delegateTypeAction\<close> calls \<open>checkExpr\<close> again; \<open>chk\<close> is that recursive
  call (with the schema and the options, which never change, fixed).
\<close>

type_synonym checker = "ExprNode \<Rightarrow> ErrorList \<Rightarrow> typeAction option \<Rightarrow> checked"

definition delegateTypeAction ::
  "checker \<Rightarrow> ExprNode \<Rightarrow> string \<Rightarrow> DataType \<Rightarrow> ErrorList \<Rightarrow> typeAction option \<Rightarrow> checked" where
  "delegateTypeAction chk n fn dt el ta =
     (if ta \<noteq> None \<and> Pending dt then chk n el ta
      else Inr (verifyTypeAction n fn dt el ta))"

subsection \<open>Identifiers\<close>

definition checkVariable ::
  "Header \<Rightarrow> string \<Rightarrow> Schema \<Rightarrow> CheckOptions \<Rightarrow> ErrorList \<Rightarrow> typeAction option
   \<Rightarrow> ExprNode option \<times> ErrorList" where
  "checkVariable h name s opts el ta =
     (let n = IdentifierNode h name; fn = ''CheckVariable'' in
      if CheckWithConstantOnly opts then
        (None, Append el \<lparr>Position = GetPosition n, Length = GetLength n,
           Category = ErrorCategorySemantic, Code = ErrorCodeNonConstantExpression,
           Severity = ErrorSeverityError, Prefix = fn,
           Message = MsgIsNotAConstant name\<rparr>)
      else
        case Columns s name of
          None \<Rightarrow>
            (None, Append el \<lparr>Position = GetPosition n, Length = GetLength n,
               Category = ErrorCategorySemantic, Code = ErrorCodeColumnNotFound,
               Severity = ErrorSeverityError, Prefix = fn,
               Message = MsgCannotFindColumn name (TableName s)\<rparr>)
        | Some dt \<Rightarrow>
            (case verifyTypeAction n fn dt el ta of
               (None, el1) \<Rightarrow> (None, el1)
             | (Some _, el1) \<Rightarrow> (Some (SetType n dt), el1)))"

subsection \<open>Value nodes\<close>

text \<open>The argument is an \<open>ast.Valuer\<close>: one of the six value nodes.\<close>

fun describeValueNodeType :: "ExprNode \<Rightarrow> string" where
  "describeValueNodeType (BoolValueNode _ _) = ''boolean constant''"
| "describeValueNodeType (AddressValueNode _ _) = ''address constant''"
| "describeValueNodeType (IntegerValueNode _ _ _) = ''number constant''"
| "describeValueNodeType (DecimalValueNode _ _) = ''number constant''"
| "describeValueNodeType (BytesValueNode _ _) = ''bytes constant''"
| "describeValueNodeType (NullValueNode _) = ''null constant''"
| "describeValueNodeType _ = ''unknown constant type''"

definition elAppendTypeErrorAssignValueNode ::
  "ErrorList \<Rightarrow> ExprNode \<Rightarrow> string \<Rightarrow> DataType \<Rightarrow> ErrorList" where
  "elAppendTypeErrorAssignValueNode el n fn dt =
     Append el \<lparr>Position = GetPosition n, Length = GetLength n,
       Category = ErrorCategorySemantic, Code = ErrorCodeTypeError,
       Severity = ErrorSeverityError, Prefix = fn,
       Message = MsgExpectButConstantGiven dt (describeValueNodeType n)\<rparr>"

definition checkBoolValue ::
  "Header \<Rightarrow> BoolValue \<Rightarrow> CheckOptions \<Rightarrow> ErrorList \<Rightarrow> typeAction option
   \<Rightarrow> ExprNode option \<times> ErrorList" where
  "checkBoolValue h v opts el ta =
     (let n = BoolValueNode h v; fn = ''CheckBoolValue'' in
      case ta of
        Some (typeActionAssign adt) \<Rightarrow>
          if fst (DecomposeDataType adt) \<noteq> DataTypeMajorBool
          then (None, elAppendTypeErrorAssignValueNode el n fn adt)
          else (Some n, el)
      | _ \<Rightarrow> (Some n, el))"

definition checkAddressValue ::
  "Header \<Rightarrow> byte list \<Rightarrow> CheckOptions \<Rightarrow> ErrorList \<Rightarrow> typeAction option
   \<Rightarrow> ExprNode option \<times> ErrorList" where
  "checkAddressValue h v opts el ta =
     (let n = AddressValueNode h v; fn = ''CheckAddressValue'' in
      case ta of
        Some (typeActionAssign adt) \<Rightarrow>
          if fst (DecomposeDataType adt) \<noteq> DataTypeMajorAddress
          then (None, elAppendTypeErrorAssignValueNode el n fn adt)
          else (Some n, el)
      | _ \<Rightarrow> (Some n, el))"

definition mustGetMinMax :: "DataType \<Rightarrow> fault + (Decimal \<times> Decimal)" where
  "mustGetMinMax dt = (case GetMinMax dt of None \<Rightarrow> Inl Panic | Some mm \<Rightarrow> Inr mm)"

definition mustDecimalEncode :: "DataType \<Rightarrow> Decimal \<Rightarrow> fault + byte list" where
  "mustDecimalEncode dt d = (case DecimalEncode dt d of None \<Rightarrow> Inl Panic | Some b \<Rightarrow> Inr b)"

definition mustDecimalDecode :: "DataType \<Rightarrow> byte list \<Rightarrow> fault + Decimal" where
  "mustDecimalDecode dt b = (case DecimalDecode dt b of None \<Rightarrow> Inl Panic | Some d \<Rightarrow> Inr d)"

definition cropDecimal :: "DataType \<Rightarrow> Decimal \<Rightarrow> fault + Decimal" where
  "cropDecimal dt d = bindF (mustDecimalEncode dt d) (\<lambda>b. mustDecimalDecode dt b)"

definition elAppendConstantTooLongError ::
  "Limits \<Rightarrow> ErrorList \<Rightarrow> ExprNode \<Rightarrow> string \<Rightarrow> Decimal \<Rightarrow> ErrorList" where
  "elAppendConstantTooLongError lm el n fn v =
     Append el \<lparr>Position = GetPosition n, Length = GetLength n,
       Category = ErrorCategorySemantic, Code = ErrorCodeConstantTooLong,
       Severity = ErrorSeverityError, Prefix = fn,
       Message = MsgConstantTooLong (GetToken n) (MaxIntegerPartDigits lm)\<rparr>"

definition elAppendOverflowError ::
  "ErrorList \<Rightarrow> ExprNode \<Rightarrow> string \<Rightarrow> DataType \<Rightarrow> Decimal \<Rightarrow> Decimal \<Rightarrow> Decimal
   \<Rightarrow> ErrorList" where
  "elAppendOverflowError el n fn dt v mn mx =
     Append
       (Append el \<lparr>Position = GetPosition n, Length = GetLength n,
          Category = ErrorCategorySemantic, Code = ErrorCodeOverflow,
          Severity = ErrorSeverityError, Prefix = fn,
          Message = MsgOverflows (GetToken n) v dt\<rparr>)
       \<lparr>Position = GetPosition n, Length = GetLength n,
        Category = ErrorCategoryNil, Code = ErrorCodeNil,
        Severity = ErrorSeverityNote, Prefix = fn,
        Message = MsgRangeIs dt mn mx\<rparr>"

definition elAppendOverflowWarning ::
  "ErrorList \<Rightarrow> ExprNode \<Rightarrow> string \<Rightarrow> DataType \<Rightarrow> Decimal \<Rightarrow> Decimal \<Rightarrow> ErrorList" where
  "elAppendOverflowWarning el n fn dt from to =
     Append el \<lparr>Position = GetPosition n, Length = GetLength n,
       Category = ErrorCategoryNil, Code = ErrorCodeNil,
       Severity = ErrorSeverityWarning, Prefix = fn,
       Message = MsgOverflowsConverted (GetToken n) from dt to\<rparr>"

text \<open>
  The closure \<open>infer\<close> of \<open>checkIntegerValue\<close>. It returns the type and the
  flag, and with them the value of the node (which it may crop) and the
  diagnostics.
\<close>

definition checkIntegerValue_infer ::
  "CheckOptions \<Rightarrow> Header \<Rightarrow> bool \<Rightarrow> Decimal \<Rightarrow> ErrorList \<Rightarrow> int
   \<Rightarrow> fault + (DataType \<times> bool \<times> Decimal \<times> ErrorList)" where
  "checkIntegerValue_infer opts h isAddress v el sz =
     (let n = IntegerValueNode h isAddress v; fn = ''CheckIntegerValue'';
          minor = (word_of_int (sz - 1) :: DataTypeMinor);
          dt = ComposeDataType DataTypeMajorInt minor
      in bindF (mustGetMinMax dt) (\<lambda>(mn, mx).
        if v < mn then
          (if CheckWithSafeMath opts
           then Inr (dt, False, v, elAppendOverflowError el n fn dt v mn mx)
           else bindF (cropDecimal dt v) (\<lambda>cropped.
             Inr (dt, True, normalizeDecimal cropped,
                  elAppendOverflowWarning el n fn dt v cropped)))
        else if v \<le> mx then Inr (dt, True, v, el)
        else
          (let dt = ComposeDataType DataTypeMajorUint minor
           in bindF (mustGetMinMax dt) (\<lambda>(mn, mx).
             if v > mx then
               (if CheckWithSafeMath opts
                then Inr (dt, False, v, elAppendOverflowError el n fn dt v mn mx)
                else bindF (cropDecimal dt v) (\<lambda>cropped.
                  Inr (dt, True, normalizeDecimal cropped,
                       elAppendOverflowWarning el n fn dt v cropped)))
             else Inr (dt, True, v, el)))))"

text \<open>
  The case \<open>typeActionInferWithMajor\<close> of \<open>checkIntegerValue\<close> replaces the
  action and jumps back to the switch. The new action is an assignment or
  the default inference, so the switch runs at most twice.
\<close>

fun checkIntegerValue_major :: "DataTypeMajor \<Rightarrow> typeAction" where
  "checkIntegerValue_major DataTypeMajorAddress =
     typeActionAssign (ComposeDataType DataTypeMajorAddress DataTypeMinorDontCare)"
| "checkIntegerValue_major DataTypeMajorInt =
     typeActionAssign (ComposeDataType DataTypeMajorInt (of_nat (256 div 8 - 1)))"
| "checkIntegerValue_major DataTypeMajorUint =
     typeActionAssign (ComposeDataType DataTypeMajorUint (of_nat (256 div 8 - 1)))"
| "checkIntegerValue_major (DataTypeMajorFixedPlus k) =
     (if k = 0
      then typeActionAssign
        (ComposeDataType (majorPlus DataTypeMajorFixed (128 div 8 - 1)) 18)
      else typeActionInferDefault)"
| "checkIntegerValue_major (DataTypeMajorUfixedPlus k) =
     (if k = 0
      then typeActionAssign
        (ComposeDataType (majorPlus DataTypeMajorUfixed (128 div 8 - 1)) 18)
      else typeActionInferDefault)"
| "checkIntegerValue_major _ = typeActionInferDefault"

definition checkIntegerValue ::
  "Limits \<Rightarrow> Header \<Rightarrow> bool \<Rightarrow> Decimal \<Rightarrow> CheckOptions \<Rightarrow> ErrorList \<Rightarrow> typeAction option
   \<Rightarrow> checked" where
  "checkIntegerValue lm h isAddress v0 opts el ta0 =
     (let fn = ''CheckIntegerValue''; v = normalizeDecimal v0;
          n = IntegerValueNode h isAddress v
      in
      if \<not> safeDecimalRange lm v
      then Inr (None, elAppendConstantTooLongError lm el n fn v)
      else
        let ta = (case ta0 of
                    Some (typeActionInferWithMajor major) \<Rightarrow>
                      Some (checkIntegerValue_major major)
                  | _ \<Rightarrow> ta0);
            finish = (\<lambda>dt v el.
              Inr (Some (if \<not> Pending dt
                         then SetType (IntegerValueNode h isAddress v) dt
                         else IntegerValueNode h isAddress v), el))
        in
        case ta of
          None \<Rightarrow> finish DataTypePending v el
        | Some typeActionInferDefault \<Rightarrow>
            bindF (checkIntegerValue_infer opts h isAddress v el (256 div 8))
              (\<lambda>(dt, ok, v, el). if \<not> ok then Inr (None, el) else finish dt v el)
        | Some (typeActionInferWithSize sz) \<Rightarrow>
            bindF (checkIntegerValue_infer opts h isAddress v el sz)
              (\<lambda>(dt, ok, v, el). if \<not> ok then Inr (None, el) else finish dt v el)
        | Some (typeActionInferWithMajor _) \<Rightarrow> finish DataTypePending v el
        | Some (typeActionAssign dt) \<Rightarrow>
            (let major = fst (DecomposeDataType dt) in
             if major = DataTypeMajorAddress then
               (if \<not> isAddress then
                  Inr (None, Append el \<lparr>Position = GetPosition n, Length = GetLength n,
                    Category = ErrorCategorySemantic,
                    Code = ErrorCodeInvalidAddressChecksum,
                    Severity = ErrorSeverityError, Prefix = fn,
                    Message = MsgNotAnAddressConstant dt (GetToken n)\<rparr>)
                else
                  let addrNode = AddressValueNode zeroHeader [];
                      addrNode = SetPosition addrNode (GetPosition addrNode);
                      addrNode = SetLength addrNode (GetLength addrNode);
                      addrNode = SetToken addrNode (GetToken addrNode)
                  in bindF
                       (mustDecimalEncode
                          (ComposeDataType DataTypeMajorUint (of_nat (160 div 8 - 1))) v)
                       (\<lambda>b. Inr (checkAddressValue (GetHeader addrNode) b opts el ta)))
             else if major = DataTypeMajorInt \<or> major = DataTypeMajorUint
                     \<or> IsFixedRange major \<or> IsUfixedRange major then
               bindF (mustGetMinMax dt) (\<lambda>(mn, mx).
                 if v < mn \<or> v > mx then
                   (if CheckWithSafeMath opts
                    then Inr (None, elAppendOverflowError el n fn dt v mn mx)
                    else bindF (cropDecimal dt v) (\<lambda>cropped.
                      finish dt (normalizeDecimal cropped)
                        (elAppendOverflowWarning el n fn dt v cropped)))
                 else finish dt v el)
             else Inr (None, elAppendTypeErrorAssignValueNode el n fn dt)))"

text \<open>The closure \<open>infer\<close> of \<open>checkDecimalValue\<close>.\<close>

definition checkDecimalValue_infer ::
  "CheckOptions \<Rightarrow> Header \<Rightarrow> Decimal \<Rightarrow> ErrorList \<Rightarrow> nat \<Rightarrow> nat
   \<Rightarrow> fault + (DataType \<times> bool \<times> Decimal \<times> ErrorList)" where
  "checkDecimalValue_infer opts h v el sz fractionalDigits =
     (let n = DecimalValueNode h v; fn = ''CheckDecimalValue'';
          major = majorPlus DataTypeMajorFixed (sz - 1);
          minor = (of_nat fractionalDigits :: DataTypeMinor);
          dt = ComposeDataType major minor
      in bindF (mustGetMinMax dt) (\<lambda>(mn, mx).
        if v < mn then
          (if CheckWithSafeMath opts
           then Inr (dt, False, v, elAppendOverflowError el n fn dt v mn mx)
           else bindF (cropDecimal dt v) (\<lambda>cropped.
             Inr (dt, False, normalizeDecimal cropped,
                  elAppendOverflowWarning el n fn dt v cropped)))
        else if v \<le> mx then Inr (dt, True, v, el)
        else
          (let major = majorPlus DataTypeMajorUfixed (sz - 1);
               minor = (of_nat fractionalDigits :: DataTypeMinor);
               dt = ComposeDataType major minor
           in bindF (mustGetMinMax dt) (\<lambda>(mn, mx).
             if v > mx then
               (if CheckWithSafeMath opts
                then Inr (dt, False, v, elAppendOverflowError el n fn dt v mn mx)
                else bindF (cropDecimal dt v) (\<lambda>cropped.
                  Inr (dt, True, normalizeDecimal cropped,
                       elAppendOverflowWarning el n fn dt v cropped)))
             else Inr (dt, True, v, el)))))"

fun checkDecimalValue_major :: "DataTypeMajor \<Rightarrow> typeAction" where
  "checkDecimalValue_major (DataTypeMajorFixedPlus k) =
     (if k = 0
      then typeActionAssign
        (ComposeDataType (majorPlus DataTypeMajorFixed (128 div 8 - 1)) 18)
      else typeActionInferDefault)"
| "checkDecimalValue_major (DataTypeMajorUfixedPlus k) =
     (if k = 0
      then typeActionAssign
        (ComposeDataType (majorPlus DataTypeMajorUfixed (128 div 8 - 1)) 18)
      else typeActionInferDefault)"
| "checkDecimalValue_major DataTypeMajorInt =
     typeActionAssign (ComposeDataType DataTypeMajorInt (of_nat (256 div 8 - 1)))"
| "checkDecimalValue_major DataTypeMajorUint =
     typeActionAssign (ComposeDataType DataTypeMajorUint (of_nat (256 div 8 - 1)))"
| "checkDecimalValue_major _ = typeActionInferDefault"

definition checkDecimalValue ::
  "Limits \<Rightarrow> Header \<Rightarrow> Decimal \<Rightarrow> CheckOptions \<Rightarrow> ErrorList \<Rightarrow> typeAction option
   \<Rightarrow> checked" where
  "checkDecimalValue lm h v0 opts el ta0 =
     (let fn = ''CheckDecimalValue''; v = normalizeDecimal v0;
          n = DecimalValueNode h v
      in
      if \<not> safeDecimalRange lm v
      then Inr (None, elAppendConstantTooLongError lm el n fn v)
      else if v = Truncate v 0 then
        (let intNode = IntegerValueNode zeroHeader False 0;
             intNode = SetPosition intNode (GetPosition n);
             intNode = SetLength intNode (GetLength n);
             intNode = SetToken intNode (GetToken n);
             intNode = SetType intNode (GetType n)
         in checkIntegerValue lm (GetHeader intNode) False v opts el ta0)
      else
        let ta = (case ta0 of
                    Some (typeActionInferWithMajor major) \<Rightarrow>
                      Some (checkDecimalValue_major major)
                  | _ \<Rightarrow> ta0);
            finish = (\<lambda>dt v el.
              Inr (Some (if \<not> Pending dt
                         then DecimalValueNode (GetHeader (SetType (DecimalValueNode h v) dt))
                                (normalizeDecimal
                                   (Round v (unat (snd (DecomposeDataType dt)))))
                         else DecimalValueNode h v), el))
        in
        case ta of
          None \<Rightarrow> finish DataTypePending v el
        | Some typeActionInferDefault \<Rightarrow>
            bindF (checkDecimalValue_infer opts h v el (128 div 8) 18)
              (\<lambda>(dt, ok, v, el). if \<not> ok then Inr (None, el) else finish dt v el)
        | Some (typeActionInferWithSize sz) \<Rightarrow>
            bindF (checkDecimalValue_infer opts h v el (128 div 8) 18)
              (\<lambda>(dt, ok, v, el). if \<not> ok then Inr (None, el) else finish dt v el)
        | Some (typeActionInferWithMajor _) \<Rightarrow> finish DataTypePending v el
        | Some (typeActionAssign dt) \<Rightarrow>
            (let major = fst (DecomposeDataType dt) in
             if IsFixedRange major \<or> IsUfixedRange major then
               bindF (mustGetMinMax dt) (\<lambda>(mn, mx).
                 if v < mn \<or> v > mx then
                   (if CheckWithSafeMath opts
                    then Inr (None, elAppendOverflowError el n fn dt v mn mx)
                    else bindF (cropDecimal dt v) (\<lambda>cropped.
                      finish dt (normalizeDecimal cropped)
                        (elAppendOverflowWarning el n fn dt v cropped)))
                 else finish dt v el)
             else if major = DataTypeMajorInt \<or> major = DataTypeMajorUint then
               Inr (None, Append el \<lparr>Position = GetPosition n, Length = GetLength n,
                 Category = ErrorCategorySemantic, Code = ErrorCodeTypeError,
                 Severity = ErrorSeverityError, Prefix = fn,
                 Message = MsgHasFractionalPart dt v\<rparr>)
             else Inr (None, elAppendTypeErrorAssignValueNode el n fn dt)))"

text \<open>
  \<open>checkBytesValue\<close> jumps back to its switch after each of the three
  inference cases; \<open>checkBytesValue_step\<close> is one pass through such a case
  (\<open>None\<close> when the pass returns \<open>nil\<close>). An inference with a major that is
  no bytes major becomes the default inference, which becomes an
  assignment, so the third pass at the latest is the assignment.
\<close>

definition checkBytesValue_step ::
  "ExprNode \<Rightarrow> byte list \<Rightarrow> ErrorList \<Rightarrow> typeAction \<Rightarrow> typeAction option \<times> ErrorList" where
  "checkBytesValue_step n v el ta =
     (let fn = ''CheckBytesValue'' in
      case ta of
        typeActionInferDefault \<Rightarrow>
          (Some (typeActionAssign
             (ComposeDataType DataTypeMajorDynamicBytes DataTypeMinorDontCare)), el)
      | typeActionInferWithSize sz \<Rightarrow>
          (Some (typeActionAssign
             (ComposeDataType DataTypeMajorFixedBytes (word_of_int (sz - 1)))), el)
      | typeActionInferWithMajor major \<Rightarrow>
          (if major = DataTypeMajorFixedBytes then
             (if length v < 1 \<or> length v > 32 then
                (None, Append el \<lparr>Position = GetPosition n, Length = GetLength n,
                   Category = ErrorCategorySemantic, Code = ErrorCodeTypeError,
                   Severity = ErrorSeverityError, Prefix = fn,
                   Message = MsgCannotInferFixedBytes v (length v)\<rparr>)
              else
                (Some (typeActionAssign (ComposeDataType major (of_nat (length v)))), el))
           else if major = DataTypeMajorDynamicBytes then
             (Some (typeActionAssign (ComposeDataType major DataTypeMinorDontCare)), el)
           else (Some typeActionInferDefault, el))
      | typeActionAssign dt \<Rightarrow> (Some (typeActionAssign dt), el))"

definition checkBytesValue_assign ::
  "Header \<Rightarrow> byte list \<Rightarrow> ErrorList \<Rightarrow> DataType \<Rightarrow> ExprNode option \<times> ErrorList" where
  "checkBytesValue_assign h v el dt =
     (let n = BytesValueNode h v; fn = ''CheckBytesValue'';
          major = fst (DecomposeDataType dt); minor = snd (DecomposeDataType dt);
          finish = (if \<not> Pending dt then SetType n dt else n)
      in
      if major = DataTypeMajorDynamicBytes then (Some finish, el)
      else if major = DataTypeMajorFixedBytes then
        (let sizeGiven = length v; sizeExpected = unat minor + 1 in
         if sizeGiven \<noteq> sizeExpected then
           (None, Append el \<lparr>Position = GetPosition n, Length = GetLength n,
              Category = ErrorCategorySemantic, Code = ErrorCodeTypeError,
              Severity = ErrorSeverityError, Prefix = fn,
              Message = MsgExpectButHasBytes dt v sizeGiven\<rparr>)
         else (Some finish, el))
      else (None, elAppendTypeErrorAssignValueNode el n fn dt))"

definition checkBytesValue ::
  "Header \<Rightarrow> byte list \<Rightarrow> CheckOptions \<Rightarrow> ErrorList \<Rightarrow> typeAction option
   \<Rightarrow> ExprNode option \<times> ErrorList" where
  "checkBytesValue h v opts el ta0 =
     (let n = BytesValueNode h v in
      case ta0 of
        None \<Rightarrow> (Some n, el)
      | Some a0 \<Rightarrow>
          (case checkBytesValue_step n v el a0 of
             (None, el1) \<Rightarrow> (None, el1)
           | (Some a1, el1) \<Rightarrow>
               (case checkBytesValue_step n v el1 a1 of
                  (None, el2) \<Rightarrow> (None, el2)
                | (Some (typeActionAssign dt), el2) \<Rightarrow> checkBytesValue_assign h v el2 dt
                | (Some _, el2) \<Rightarrow> (Some n, el2))))"

definition checkNullValue ::
  "Header \<Rightarrow> CheckOptions \<Rightarrow> ErrorList \<Rightarrow> typeAction option
   \<Rightarrow> ExprNode option \<times> ErrorList" where
  "checkNullValue h opts el ta =
     (let n = NullValueNode h;
          dt = (case ta of
                  None \<Rightarrow> DataTypePending
                | Some typeActionInferDefault \<Rightarrow> DataTypeNull
                | Some (typeActionInferWithSize _) \<Rightarrow> DataTypeNull
                | Some (typeActionInferWithMajor _) \<Rightarrow> DataTypeNull
                | Some (typeActionAssign adt) \<Rightarrow> adt)
      in (Some (if \<not> Pending dt then SetType n dt else n), el))"

subsection \<open>Unary operators\<close>

fun GetTarget :: "ExprNode \<Rightarrow> ExprNode" where
  "GetTarget (UnaryOperatorNode _ _ t) = t"
| "GetTarget n = n"

fun SetTarget :: "ExprNode \<Rightarrow> ExprNode \<Rightarrow> ExprNode" where
  "SetTarget (UnaryOperatorNode u h _) t = UnaryOperatorNode u h t"
| "SetTarget n t = n"

text \<open>
  The three calls \<open>SetPosition\<close>, \<open>SetLength\<close>, \<open>SetToken\<close> that copy the
  span of \<open>n\<close> to \<open>r\<close>.
\<close>

definition copySpan :: "ExprNode \<Rightarrow> ExprNode \<Rightarrow> ExprNode" where
  "copySpan r n =
     SetToken (SetLength (SetPosition r (GetPosition n)) (GetLength n)) (GetToken n)"

definition checkChildrenForUnaryOperator :: "checker \<Rightarrow> ExprNode \<Rightarrow> ErrorList \<Rightarrow> checked" where
  "checkChildrenForUnaryOperator chk n el =
     bindF (chk (GetTarget n) el None) (\<lambda>(target, el1).
       case target of
         None \<Rightarrow> Inr (None, el1)
       | Some t \<Rightarrow> Inr (Some (SetTarget n t), el1))"

definition elAppendTypeErrorOperatorValueNode ::
  "ErrorList \<Rightarrow> ExprNode \<Rightarrow> string \<Rightarrow> string \<Rightarrow> ErrorList" where
  "elAppendTypeErrorOperatorValueNode el n fn opn =
     Append el \<lparr>Position = GetPosition n, Length = GetLength n,
       Category = ErrorCategorySemantic, Code = ErrorCodeTypeError,
       Severity = ErrorSeverityError, Prefix = fn,
       Message = MsgNotDefinedForConstant opn (describeValueNodeType n)\<rparr>"

definition elAppendTypeErrorOperatorDataType ::
  "ErrorList \<Rightarrow> ExprNode \<Rightarrow> string \<Rightarrow> string \<Rightarrow> DataType \<Rightarrow> ErrorList" where
  "elAppendTypeErrorOperatorDataType el n fn opn dt =
     Append el \<lparr>Position = GetPosition n, Length = GetLength n,
       Category = ErrorCategorySemantic, Code = ErrorCodeTypeError,
       Severity = ErrorSeverityError, Prefix = fn,
       Message = MsgNotDefinedForType opn dt\<rparr>"

definition validateNumberType ::
  "DataType \<Rightarrow> ErrorList \<Rightarrow> ExprNode \<Rightarrow> string \<Rightarrow> string \<Rightarrow> bool \<times> ErrorList" where
  "validateNumberType dt el n fn opn =
     (if \<not> Pending dt then
        (let major = fst (DecomposeDataType dt) in
         if major = DataTypeMajorInt \<or> major = DataTypeMajorUint
            \<or> IsFixedRange major \<or> IsUfixedRange major
         then (True, el)
         else (False, elAppendTypeErrorOperatorDataType el n fn opn dt))
      else (True, el))"

datatype extractNumberValueStatus =
    extractNumberValueStatusError
  | extractNumberValueStatusInteger
  | extractNumberValueStatusDecimal
  | extractNumberValueStatusNullWithType
  | extractNumberValueStatusNullWithoutType

fun extractNumberValue ::
  "ExprNode \<Rightarrow> ErrorList \<Rightarrow> string \<Rightarrow> string
   \<Rightarrow> (Decimal \<times> extractNumberValueStatus) \<times> ErrorList" where
  "extractNumberValue (IntegerValueNode h a v) el fn opn =
     ((v, extractNumberValueStatusInteger), el)"
| "extractNumberValue (DecimalValueNode h v) el fn opn =
     ((v, extractNumberValueStatusDecimal), el)"
| "extractNumberValue (NullValueNode h) el fn opn =
     (if Pending (GetType (NullValueNode h))
      then ((0, extractNumberValueStatusNullWithoutType), el)
      else ((0, extractNumberValueStatusNullWithType), el))"
| "extractNumberValue n el fn opn =
     ((0, extractNumberValueStatusError), elAppendTypeErrorOperatorValueNode el n fn opn)"

definition checkPosOperator ::
  "checker \<Rightarrow> ExprNode \<Rightarrow> ErrorList \<Rightarrow> typeAction option \<Rightarrow> checked" where
  "checkPosOperator chk n0 el0 ta =
     (let fn = ''CheckPosOperator''; opn = ''unary operator +'' in
      bindF (checkChildrenForUnaryOperator chk n0 el0) (\<lambda>(r, el).
        case r of
          None \<Rightarrow> Inr (None, el)
        | Some n \<Rightarrow>
            (let target = GetTarget n; dtTarget = GetType target in
             case validateNumberType dtTarget el target fn opn of
               (False, el) \<Rightarrow> Inr (None, el)
             | (True, el) \<Rightarrow>
                 (let dt = dtTarget;
                      stamp = (\<lambda>r. SetType (copySpan r n) dt)
                  in
                  if isValuer target then
                    (case extractNumberValue target el fn opn of
                       ((v, status), el) \<Rightarrow>
                         (case status of
                            extractNumberValueStatusError \<Rightarrow> Inr (None, el)
                          | extractNumberValueStatusInteger \<Rightarrow>
                              delegateTypeAction chk
                                (stamp (IntegerValueNode zeroHeader False v)) fn dt el ta
                          | extractNumberValueStatusDecimal \<Rightarrow>
                              delegateTypeAction chk
                                (stamp (DecimalValueNode zeroHeader v)) fn dt el ta
                          | extractNumberValueStatusNullWithType \<Rightarrow>
                              delegateTypeAction chk
                                (stamp (NullValueNode zeroHeader)) fn dt el ta
                          | extractNumberValueStatusNullWithoutType \<Rightarrow>
                              Inr (None,
                                elAppendTypeErrorOperatorValueNode el target fn opn)))
                  else delegateTypeAction chk target fn dt el ta))))"

text \<open>The closure \<open>calc\<close> of \<open>checkNegOperator\<close>.\<close>

definition checkNegOperator_calc ::
  "CheckOptions \<Rightarrow> ExprNode \<Rightarrow> DataType \<Rightarrow> ErrorList \<Rightarrow> Decimal
   \<Rightarrow> fault + (Decimal \<times> bool \<times> ErrorList)" where
  "checkNegOperator_calc opts n dt el v =
     (let fn = ''CheckNegOperator''; r = - v in
      if \<not> Pending dt then
        bindF (mustGetMinMax dt) (\<lambda>(mn, mx).
          if r < mn \<or> r > mx then
            (if CheckWithSafeMath opts
             then Inr (r, False, elAppendOverflowError el n fn dt r mn mx)
             else bindF (cropDecimal dt r) (\<lambda>cropped.
               Inr (normalizeDecimal cropped, True,
                    elAppendOverflowWarning el n fn dt r cropped)))
          else Inr (normalizeDecimal r, True, el))
      else Inr (normalizeDecimal r, True, el))"

definition checkNegOperator ::
  "checker \<Rightarrow> CheckOptions \<Rightarrow> ExprNode \<Rightarrow> ErrorList \<Rightarrow> typeAction option \<Rightarrow> checked" where
  "checkNegOperator chk opts n0 el0 ta =
     (let fn = ''CheckNegOperator''; opn = ''unary operator -'' in
      bindF (checkChildrenForUnaryOperator chk n0 el0) (\<lambda>(r, el).
        case r of
          None \<Rightarrow> Inr (None, el)
        | Some n \<Rightarrow>
            (let target = GetTarget n; dtTarget = GetType target in
             case validateNumberType dtTarget el target fn opn of
               (False, el) \<Rightarrow> Inr (None, el)
             | (True, el) \<Rightarrow>
                 (let n = SetType n dtTarget; dt = GetType n;
                      stamp = (\<lambda>r. SetType (copySpan r n) dt)
                  in
                  if isValuer target then
                    (case extractNumberValue target el fn opn of
                       ((v, status), el) \<Rightarrow>
                         (case status of
                            extractNumberValueStatusError \<Rightarrow> Inr (None, el)
                          | extractNumberValueStatusInteger \<Rightarrow>
                              bindF (checkNegOperator_calc opts n dt el v)
                                (\<lambda>(v, ok, el).
                                   if \<not> ok then Inr (None, el)
                                   else delegateTypeAction chk
                                          (stamp (IntegerValueNode zeroHeader False v))
                                          fn dt el ta)
                          | extractNumberValueStatusDecimal \<Rightarrow>
                              bindF (checkNegOperator_calc opts n dt el v)
                                (\<lambda>(v, ok, el).
                                   if \<not> ok then Inr (None, el)
                                   else delegateTypeAction chk
                                          (stamp (DecimalValueNode zeroHeader v))
                                          fn dt el ta)
                          | extractNumberValueStatusNullWithType \<Rightarrow>
                              delegateTypeAction chk
                                (stamp (NullValueNode zeroHeader)) fn dt el ta
                          | extractNumberValueStatusNullWithoutType \<Rightarrow>
                              Inr (None,
                                elAppendTypeErrorOperatorValueNode el target fn opn)))
                  else delegateTypeAction chk n fn dt el ta))))"

definition validateBoolType ::
  "DataType \<Rightarrow> ErrorList \<Rightarrow> ExprNode \<Rightarrow> string \<Rightarrow> string \<Rightarrow> bool \<times> ErrorList" where
  "validateBoolType dt el n fn opn =
     (if \<not> Pending dt then
        (let major = fst (DecomposeDataType dt) in
         if major = DataTypeMajorBool then (True, el)
         else (False, elAppendTypeErrorOperatorDataType el n fn opn dt))
      else (True, el))"

fun extractBoolValue ::
  "ExprNode \<Rightarrow> ErrorList \<Rightarrow> string \<Rightarrow> string \<Rightarrow> (BoolValue \<times> bool) \<times> ErrorList" where
  "extractBoolValue (BoolValueNode h v) el fn opn = ((v, True), el)"
| "extractBoolValue (NullValueNode h) el fn opn = ((BoolValueUnknown, True), el)"
| "extractBoolValue n el fn opn =
     ((BoolValueUnknown, False), elAppendTypeErrorOperatorValueNode el n fn opn)"

definition checkNotOperator ::
  "checker \<Rightarrow> ExprNode \<Rightarrow> ErrorList \<Rightarrow> typeAction option \<Rightarrow> checked" where
  "checkNotOperator chk n0 el0 ta =
     (let fn = ''CheckNotOperator''; opn = ''unary operator NOT'' in
      bindF (checkChildrenForUnaryOperator chk n0 el0) (\<lambda>(r, el).
        case r of
          None \<Rightarrow> Inr (None, el)
        | Some n \<Rightarrow>
            (let target = GetTarget n; dtTarget = GetType target in
             case validateBoolType dtTarget el target fn opn of
               (False, el) \<Rightarrow> Inr (None, el)
             | (True, el) \<Rightarrow>
                 (let dt = GetType n in
                  if isValuer target then
                    (case extractBoolValue target el fn opn of
                       ((v, ok), el) \<Rightarrow>
                         if \<not> ok then Inr (None, el)
                         else Inr (verifyTypeAction
                                (copySpan (BoolValueNode zeroHeader (BoolNot v)) n)
                                fn dt el ta))
                  else Inr (verifyTypeAction n fn dt el ta)))))"

definition checkParenOperator ::
  "checker \<Rightarrow> ExprNode \<Rightarrow> ErrorList \<Rightarrow> typeAction option \<Rightarrow> checked" where
  "checkParenOperator chk n el0 ta =
     bindF (chk (GetTarget n) el0 ta) (\<lambda>(r, el).
       case r of
         None \<Rightarrow> Inr (None, el)
       | Some r \<Rightarrow> Inr (Some (copySpan r n), el))"

subsection \<open>Binary operators: children, \<open>AND\<close> and \<open>OR\<close>\<close>

fun GetObject :: "ExprNode \<Rightarrow> ExprNode" where
  "GetObject (BinaryOperatorNode _ _ x _) = x"
| "GetObject n = n"

fun GetSubject :: "ExprNode \<Rightarrow> ExprNode" where
  "GetSubject (BinaryOperatorNode _ _ _ y) = y"
| "GetSubject n = n"

fun SetObject :: "ExprNode \<Rightarrow> ExprNode \<Rightarrow> ExprNode" where
  "SetObject (BinaryOperatorNode b h _ y) x = BinaryOperatorNode b h x y"
| "SetObject n x = n"

fun SetSubject :: "ExprNode \<Rightarrow> ExprNode \<Rightarrow> ExprNode" where
  "SetSubject (BinaryOperatorNode b h x _) y = BinaryOperatorNode b h x y"
| "SetSubject n y = n"

definition checkChildrenForBinaryOperator :: "checker \<Rightarrow> ExprNode \<Rightarrow> ErrorList \<Rightarrow> checked" where
  "checkChildrenForBinaryOperator chk n el =
     bindF (chk (GetObject n) el None) (\<lambda>(object, el1).
       let n1 = (case object of Some x \<Rightarrow> SetObject n x | None \<Rightarrow> n) in
       bindF (chk (GetSubject n1) el1 None) (\<lambda>(subject, el2).
         let n2 = (case subject of Some y \<Rightarrow> SetSubject n1 y | None \<Rightarrow> n1);
             hasError = (object = None \<or> subject = None)
         in Inr (if hasError then None else Some n2, el2)))"

text \<open>
  The part of \<open>checkAndOperator\<close> after the children are checked: the
  validation of the operand types and the folding.
\<close>

definition checkAndOperator_fold ::
  "ExprNode \<Rightarrow> ErrorList \<Rightarrow> typeAction option \<Rightarrow> ExprNode option \<times> ErrorList" where
  "checkAndOperator_fold n el ta =
     (let fn = ''CheckAndOperator''; opn = ''binary operator AND'';
          object = GetObject n; dtObject = GetType object
      in
      case validateBoolType dtObject el object fn opn of
        (False, el) \<Rightarrow> (None, el)
      | (True, el) \<Rightarrow>
          (let subject = GetSubject n; dtSubject = GetType subject in
           case validateBoolType dtSubject el subject fn opn of
             (False, el) \<Rightarrow> (None, el)
           | (True, el) \<Rightarrow>
               (let dt = GetType n in
                case (if isValuer object then extractBoolValue object el fn opn
                      else ((BoolValueZero, True), el)) of
                  ((v1, ok1), el) \<Rightarrow>
                    if \<not> ok1 then (None, el)
                    else
                      (case (if isValuer subject then extractBoolValue subject el fn opn
                             else ((BoolValueZero, True), el)) of
                         ((v2, ok2), el) \<Rightarrow>
                           if \<not> ok2 then (None, el)
                           else
                             (let vo = (if Valid v1 \<and> Valid v2 then BoolAnd v1 v2
                                        else if v1 = BoolValueFalse \<or> v2 = BoolValueFalse
                                        then BoolValueFalse
                                        else BoolValueZero);
                                  r = (if Valid vo
                                       then copySpan (BoolValueNode zeroHeader vo) n
                                       else n)
                              in verifyTypeAction r fn dt el ta)))))"

definition checkAndOperator ::
  "checker \<Rightarrow> ExprNode \<Rightarrow> ErrorList \<Rightarrow> typeAction option \<Rightarrow> checked" where
  "checkAndOperator chk n0 el0 ta =
     bindF (checkChildrenForBinaryOperator chk n0 el0) (\<lambda>(r, el).
       case r of
         None \<Rightarrow> Inr (None, el)
       | Some n \<Rightarrow> Inr (checkAndOperator_fold n el ta))"

text \<open>
  The same part of \<open>checkOrOperator\<close>. It compares the type with an
  assigned type itself before it calls \<open>verifyTypeAction\<close>, and reports
  a mismatch at the operator node.
\<close>

definition checkOrOperator_fold ::
  "ExprNode \<Rightarrow> ErrorList \<Rightarrow> typeAction option \<Rightarrow> ExprNode option \<times> ErrorList" where
  "checkOrOperator_fold n el ta =
     (let fn = ''CheckOrOperator''; opn = ''binary operator OR'';
          object = GetObject n; dtObject = GetType object
      in
      case validateBoolType dtObject el object fn opn of
        (False, el) \<Rightarrow> (None, el)
      | (True, el) \<Rightarrow>
          (let subject = GetSubject n; dtSubject = GetType subject in
           case validateBoolType dtSubject el subject fn opn of
             (False, el) \<Rightarrow> (None, el)
           | (True, el) \<Rightarrow>
               (let dt = GetType n in
                case (if isValuer object then extractBoolValue object el fn opn
                      else ((BoolValueZero, True), el)) of
                  ((v1, ok1), el) \<Rightarrow>
                    if \<not> ok1 then (None, el)
                    else
                      (case (if isValuer subject then extractBoolValue subject el fn opn
                             else ((BoolValueZero, True), el)) of
                         ((v2, ok2), el) \<Rightarrow>
                           if \<not> ok2 then (None, el)
                           else
                             (let vo = (if Valid v1 \<and> Valid v2 then BoolOr v1 v2
                                        else if v1 = BoolValueTrue \<or> v2 = BoolValueTrue
                                        then BoolValueTrue
                                        else BoolValueZero);
                                  r = (if Valid vo
                                       then copySpan (BoolValueNode zeroHeader vo) n
                                       else n)
                              in
                              case ta of
                                Some (typeActionAssign adt) \<Rightarrow>
                                  if dt \<noteq> adt
                                  then (None, elAppendTypeErrorAssignDataType el n fn adt dt)
                                  else verifyTypeAction r fn dt el ta
                              | _ \<Rightarrow> verifyTypeAction r fn dt el ta)))))"

definition checkOrOperator ::
  "checker \<Rightarrow> ExprNode \<Rightarrow> ErrorList \<Rightarrow> typeAction option \<Rightarrow> checked" where
  "checkOrOperator chk n0 el0 ta =
     bindF (checkChildrenForBinaryOperator chk n0 el0) (\<lambda>(r, el).
       case r of
         None \<Rightarrow> Inr (None, el)
       | Some n \<Rightarrow> Inr (checkOrOperator_fold n el ta))"

subsection \<open>Relational operators\<close>

definition validateOrderedType ::
  "DataType \<Rightarrow> ErrorList \<Rightarrow> ExprNode \<Rightarrow> string \<Rightarrow> string \<Rightarrow> bool \<times> ErrorList" where
  "validateOrderedType dt el n fn opn =
     (if \<not> Pending dt then
        (let major = fst (DecomposeDataType dt) in
         if major = DataTypeMajorBool \<or> major = DataTypeMajorAddress
            \<or> major = DataTypeMajorInt \<or> major = DataTypeMajorUint
            \<or> major = DataTypeMajorFixedBytes \<or> major = DataTypeMajorDynamicBytes
            \<or> IsFixedRange major \<or> IsFixedRange major
         then (True, el)
         else (False, elAppendTypeErrorOperatorDataType el n fn opn dt))
      else (True, el))"

definition elAppendTypeErrorOperandDataType ::
  "ErrorList \<Rightarrow> ExprNode \<Rightarrow> string \<Rightarrow> string \<Rightarrow> DataType \<Rightarrow> DataType \<Rightarrow> ErrorList" where
  "elAppendTypeErrorOperandDataType el n fn opn dtExpected dtGiven =
     Append el \<lparr>Position = GetPosition n, Length = GetLength n,
       Category = ErrorCategorySemantic, Code = ErrorCodeTypeError,
       Severity = ErrorSeverityError, Prefix = fn,
       Message = MsgCannotUseOperandType dtGiven opn dtExpected\<rparr>"

text \<open>
  \<open>inferBinaryOperatorType\<close> returns the type and the flag, and with them
  the operator node, whose child it replaces by the checked child, and the
  diagnostics.
\<close>

definition inferBinaryOperatorType ::
  "checker \<Rightarrow> ExprNode \<Rightarrow> ErrorList \<Rightarrow> string \<Rightarrow> string
   \<Rightarrow> fault + ((DataType \<times> bool) \<times> ExprNode \<times> ErrorList)" where
  "inferBinaryOperatorType chk n el fn opn =
     (let object = GetObject n; dtObject = GetType object;
          dtObjectDetermined = (\<not> Pending dtObject);
          subject = GetSubject n; dtSubject = GetType subject;
          dtSubjectDetermined = (\<not> Pending dtSubject)
      in
      if dtObjectDetermined \<and> dtSubjectDetermined then
        (if dtObject \<noteq> dtSubject
         then Inr ((DataTypeBad, False), n,
                elAppendTypeErrorOperandDataType el subject fn opn dtObject dtSubject)
         else Inr ((dtObject, True), n, el))
      else if dtObjectDetermined \<and> \<not> dtSubjectDetermined then
        bindF (chk subject el (Some (typeActionAssign dtObject))) (\<lambda>(r, el).
          case r of
            None \<Rightarrow> Inr ((DataTypeBad, False), n, el)
          | Some subject \<Rightarrow> Inr ((dtObject, True), SetSubject n subject, el))
      else if \<not> dtObjectDetermined \<and> dtSubjectDetermined then
        bindF (chk object el (Some (typeActionAssign dtSubject))) (\<lambda>(r, el).
          case r of
            None \<Rightarrow> Inr ((DataTypeBad, False), n, el)
          | Some object \<Rightarrow> Inr ((dtSubject, True), SetObject n object, el))
      else Inr ((DataTypePending, True), n, el))"

text \<open>
  Nodes are pointers in the source. A check of a value node changes the
  node in place and returns it, except where \<open>checkDecimalValue\<close> and
  \<open>checkIntegerValue\<close> hand over to a node that they allocate; then the
  kind of the returned node differs from the kind of the checked one. The
  relational and the arithmetic operators keep the children in local
  variables while \<open>inferBinaryOperatorType\<close> checks a child again:
  \<open>afterCheck old new\<close> is the node that such a variable points to
  afterwards, where \<open>old\<close> is the node before and \<open>new\<close> the returned node.
  For a node that is no constant the variable is only tested for being one.
\<close>

definition sameValueKind :: "ExprNode \<Rightarrow> ExprNode \<Rightarrow> bool" where
  "sameValueKind old new =
     (case old of
        BoolValueNode _ _ \<Rightarrow> (case new of BoolValueNode _ _ \<Rightarrow> True | _ \<Rightarrow> False)
      | AddressValueNode _ _ \<Rightarrow> (case new of AddressValueNode _ _ \<Rightarrow> True | _ \<Rightarrow> False)
      | IntegerValueNode _ _ _ \<Rightarrow> (case new of IntegerValueNode _ _ _ \<Rightarrow> True | _ \<Rightarrow> False)
      | DecimalValueNode _ _ \<Rightarrow> (case new of DecimalValueNode _ _ \<Rightarrow> True | _ \<Rightarrow> False)
      | BytesValueNode _ _ \<Rightarrow> (case new of BytesValueNode _ _ \<Rightarrow> True | _ \<Rightarrow> False)
      | NullValueNode _ \<Rightarrow> (case new of NullValueNode _ \<Rightarrow> True | _ \<Rightarrow> False)
      | _ \<Rightarrow> False)"

definition afterCheck :: "ExprNode \<Rightarrow> ExprNode \<Rightarrow> ExprNode" where
  "afterCheck old new = (if sameValueKind old new then new else old)"

definition elAppendTypeErrorOperandValueNode ::
  "ErrorList \<Rightarrow> ExprNode \<Rightarrow> string \<Rightarrow> string \<Rightarrow> ExprNode \<Rightarrow> ErrorList" where
  "elAppendTypeErrorOperandValueNode el n fn opn nExpected =
     Append el \<lparr>Position = GetPosition n, Length = GetLength n,
       Category = ErrorCategorySemantic, Code = ErrorCodeTypeError,
       Severity = ErrorSeverityError, Prefix = fn,
       Message = MsgAlreadyUsedWith (describeValueNodeType n) opn
                   (describeValueNodeType nExpected)\<rparr>"

definition compatibleValueNodes :: "ExprNode \<Rightarrow> ExprNode \<Rightarrow> bool" where
  "compatibleValueNodes expected given =
     (case expected of
        BoolValueNode _ _ \<Rightarrow>
          (case given of
             BoolValueNode _ _ \<Rightarrow> True
           | NullValueNode _ \<Rightarrow> True
           | _ \<Rightarrow> False)
      | AddressValueNode _ _ \<Rightarrow>
          (case given of
             AddressValueNode _ _ \<Rightarrow> True
           | NullValueNode _ \<Rightarrow> True
           | _ \<Rightarrow> False)
      | IntegerValueNode _ _ _ \<Rightarrow>
          (case given of
             IntegerValueNode _ _ _ \<Rightarrow> True
           | DecimalValueNode _ _ \<Rightarrow> True
           | NullValueNode _ \<Rightarrow> True
           | _ \<Rightarrow> False)
      | DecimalValueNode _ _ \<Rightarrow>
          (case given of
             IntegerValueNode _ _ _ \<Rightarrow> True
           | DecimalValueNode _ _ \<Rightarrow> True
           | NullValueNode _ \<Rightarrow> True
           | _ \<Rightarrow> False)
      | BytesValueNode _ _ \<Rightarrow>
          (case given of
             BytesValueNode _ _ \<Rightarrow> True
           | NullValueNode _ \<Rightarrow> True
           | _ \<Rightarrow> False)
      | _ \<Rightarrow> True)"

text \<open>
  Modelled from the spec: the constant values of the checker
  (\<open>constantValueBool\<close>, \<open>constantValueBytes\<close>, \<open>constantValueDecimal\<close> and
  their constructors) are declared outside the checked file. The three
  kinds are "bool / bytes / decimal, with nullability": a bytes value may be
  \<open>nil\<close> and a decimal value may be not valid, which is \<open>None\<close> here, and
  the boolean value made from \<open>nil\<close> is \<open>Unknown\<close>.
\<close>

datatype constantValue =
    constantValueBool BoolValue
  | constantValueBytes "byte list option"
  | constantValueDecimal "Decimal option"

fun extractConstantValue :: "ExprNode \<Rightarrow> constantValue option" where
  "extractConstantValue (BoolValueNode _ v) = Some (constantValueBool v)"
| "extractConstantValue (AddressValueNode _ v) = Some (constantValueBytes (Some v))"
| "extractConstantValue (IntegerValueNode _ _ v) = Some (constantValueDecimal (Some v))"
| "extractConstantValue (DecimalValueNode _ v) = Some (constantValueDecimal (Some v))"
| "extractConstantValue (BytesValueNode _ v) = Some (constantValueBytes (Some v))"
| "extractConstantValue _ = None"

fun newNilConstantValue :: "constantValue option \<Rightarrow> constantValue option" where
  "newNilConstantValue (Some (constantValueBool _)) = Some (constantValueBool BoolValueUnknown)"
| "newNilConstantValue (Some (constantValueBytes _)) = Some (constantValueBytes None)"
| "newNilConstantValue (Some (constantValueDecimal _)) = Some (constantValueDecimal None)"
| "newNilConstantValue None = None"

definition foldRelationalOperator ::
  "ExprNode \<Rightarrow> ExprNode \<Rightarrow> ExprNode \<Rightarrow> ErrorList \<Rightarrow> string \<Rightarrow> string
   \<Rightarrow> (BoolValue \<Rightarrow> BoolValue \<Rightarrow> BoolValue)
   \<Rightarrow> (byte list option \<Rightarrow> byte list option \<Rightarrow> BoolValue)
   \<Rightarrow> (Decimal option \<Rightarrow> Decimal option \<Rightarrow> BoolValue)
   \<Rightarrow> checked" where
  "foldRelationalOperator n object subject el fn opn evalBool evalBytes evalDecimal =
     (if \<not> compatibleValueNodes object subject
      then Inr (None, elAppendTypeErrorOperandValueNode el subject fn opn object)
      else
        let arg1 = extractConstantValue object;
            arg2 = extractConstantValue subject;
            args = (if arg1 = None \<and> arg2 = None
                    then (Some (constantValueBool BoolValueUnknown),
                          Some (constantValueBool BoolValueUnknown))
                    else if arg1 = None then (newNilConstantValue arg2, arg2)
                    else if arg2 = None then (arg1, newNilConstantValue arg1)
                    else (arg1, arg2));
            node = (\<lambda>vo. Inr (Some (copySpan (BoolValueNode zeroHeader vo) n), el))
        in
        case args of
          (Some (constantValueBool v1), Some (constantValueBool v2)) \<Rightarrow>
            node (evalBool v1 v2)
        | (Some (constantValueBytes v1), Some (constantValueBytes v2)) \<Rightarrow>
            node (evalBytes v1 v2)
        | (Some (constantValueDecimal v1), Some (constantValueDecimal v2)) \<Rightarrow>
            node (evalDecimal v1 v2)
        | _ \<Rightarrow> Inl Panic)"

definition checkRelationalOperator ::
  "checker \<Rightarrow> ExprNode \<Rightarrow> ErrorList \<Rightarrow> typeAction option \<Rightarrow> string \<Rightarrow> string \<Rightarrow> bool
   \<Rightarrow> (BoolValue \<Rightarrow> BoolValue \<Rightarrow> BoolValue)
   \<Rightarrow> (byte list option \<Rightarrow> byte list option \<Rightarrow> BoolValue)
   \<Rightarrow> (Decimal option \<Rightarrow> Decimal option \<Rightarrow> BoolValue)
   \<Rightarrow> checked" where
  "checkRelationalOperator chk n0 el0 ta fn opn requireOrdered evalBool evalBytes evalDecimal =
     bindF (checkChildrenForBinaryOperator chk n0 el0) (\<lambda>(r, el).
       case r of
         None \<Rightarrow> Inr (None, el)
       | Some n \<Rightarrow>
           (let object = GetObject n; dtObject = GetType object;
                subject = GetSubject n; dtSubject = GetType subject
            in
            case (if requireOrdered then
                    (case validateOrderedType dtObject el object fn opn of
                       (False, el) \<Rightarrow> (False, el)
                     | (True, el) \<Rightarrow> validateOrderedType dtSubject el subject fn opn)
                  else (True, el)) of
              (False, el) \<Rightarrow> Inr (None, el)
            | (True, el) \<Rightarrow>
                bindF (inferBinaryOperatorType chk n el fn opn) (\<lambda>((_, ok), n, el).
                  if \<not> ok then Inr (None, el)
                  else
                    let dt = GetType n;
                        object = afterCheck object (GetObject n);
                        subject = afterCheck subject (GetSubject n)
                    in
                    if isValuer object \<and> isValuer subject then
                      bindF (foldRelationalOperator n object subject el fn opn
                               evalBool evalBytes evalDecimal) (\<lambda>(node, el).
                        case node of
                          None \<Rightarrow> Inr (None, el)
                        | Some node \<Rightarrow> Inr (verifyTypeAction node fn dt el ta))
                    else Inr (verifyTypeAction n fn dt el ta))))"

text \<open>\<open>bytes.Compare\<close>: the lexicographic comparison of two byte strings.\<close>

fun bytesCompare :: "byte list \<Rightarrow> byte list \<Rightarrow> int" where
  "bytesCompare [] [] = 0"
| "bytesCompare [] (y # ys) = - 1"
| "bytesCompare (x # xs) [] = 1"
| "bytesCompare (x # xs) (y # ys) =
     (if x < y then - 1 else if y < x then 1 else bytesCompare xs ys)"

definition evalBytesWith ::
  "(byte list \<Rightarrow> byte list \<Rightarrow> bool) \<Rightarrow> byte list option \<Rightarrow> byte list option \<Rightarrow> BoolValue" where
  "evalBytesWith f v1 v2 =
     (case (v1, v2) of
        (Some a, Some b) \<Rightarrow> NewBoolValueFromBool (f a b)
      | _ \<Rightarrow> BoolValueUnknown)"

definition evalDecimalWith ::
  "(Decimal \<Rightarrow> Decimal \<Rightarrow> bool) \<Rightarrow> Decimal option \<Rightarrow> Decimal option \<Rightarrow> BoolValue" where
  "evalDecimalWith f v1 v2 =
     (case (v1, v2) of
        (Some a, Some b) \<Rightarrow> NewBoolValueFromBool (f a b)
      | _ \<Rightarrow> BoolValueUnknown)"

definition checkGreaterOrEqualOperator ::
  "checker \<Rightarrow> ExprNode \<Rightarrow> ErrorList \<Rightarrow> typeAction option \<Rightarrow> checked" where
  "checkGreaterOrEqualOperator chk n el ta =
     checkRelationalOperator chk n el ta
       ''CheckGreaterOrEqualOperator'' ''binary operator >='' True
       (\<lambda>v1 v2. BoolGreaterOrEqual v1 v2)
       (evalBytesWith (\<lambda>v1 v2. bytesCompare v1 v2 \<ge> 0))
       (evalDecimalWith (\<lambda>v1 v2. v1 \<ge> v2))"

definition checkLessOrEqualOperator ::
  "checker \<Rightarrow> ExprNode \<Rightarrow> ErrorList \<Rightarrow> typeAction option \<Rightarrow> checked" where
  "checkLessOrEqualOperator chk n el ta =
     checkRelationalOperator chk n el ta
       ''CheckLessOrEqualOperator'' ''binary operator <='' True
       (\<lambda>v1 v2. BoolLessOrEqual v1 v2)
       (evalBytesWith (\<lambda>v1 v2. bytesCompare v1 v2 \<le> 0))
       (evalDecimalWith (\<lambda>v1 v2. v1 \<ge> v2))"

definition checkNotEqualOperator ::
  "checker \<Rightarrow> ExprNode \<Rightarrow> ErrorList \<Rightarrow> typeAction option \<Rightarrow> checked" where
  "checkNotEqualOperator chk n el ta =
     checkRelationalOperator chk n el ta
       ''CheckNotEqualOperator'' ''binary operator <>'' False
       (\<lambda>v1 v2. BoolNotEqual v1 v2)
       (evalBytesWith (\<lambda>v1 v2. v1 \<noteq> v2))
       (evalDecimalWith (\<lambda>v1 v2. v1 \<noteq> v2))"

definition evalEqualBool :: "BoolValue \<Rightarrow> BoolValue \<Rightarrow> BoolValue" where
  "evalEqualBool v1 v2 = BoolEqual v1 v2"

definition evalEqualBytes :: "byte list option \<Rightarrow> byte list option \<Rightarrow> BoolValue" where
  "evalEqualBytes = evalBytesWith (\<lambda>v1 v2. v1 = v2)"

definition evalEqualDecimal :: "Decimal option \<Rightarrow> Decimal option \<Rightarrow> BoolValue" where
  "evalEqualDecimal = evalDecimalWith (\<lambda>v1 v2. v1 = v2)"

definition checkEqualOperator ::
  "checker \<Rightarrow> ExprNode \<Rightarrow> ErrorList \<Rightarrow> typeAction option \<Rightarrow> checked" where
  "checkEqualOperator chk n el ta =
     checkRelationalOperator chk n el ta
       ''CheckEqualOperator'' ''binary operator ='' False
       evalEqualBool evalEqualBytes evalEqualDecimal"

definition checkGreaterOperator ::
  "checker \<Rightarrow> ExprNode \<Rightarrow> ErrorList \<Rightarrow> typeAction option \<Rightarrow> checked" where
  "checkGreaterOperator chk n el ta =
     checkRelationalOperator chk n el ta
       ''CheckGreaterOperator'' ''binary operator >'' True
       (\<lambda>v1 v2. BoolGreater v1 v2)
       (evalBytesWith (\<lambda>v1 v2. bytesCompare v1 v2 > 0))
       (evalDecimalWith (\<lambda>v1 v2. v1 > v2))"

definition checkLessOperator ::
  "checker \<Rightarrow> ExprNode \<Rightarrow> ErrorList \<Rightarrow> typeAction option \<Rightarrow> checked" where
  "checkLessOperator chk n el ta =
     checkRelationalOperator chk n el ta
       ''CheckLessOperator'' ''binary operator <'' True
       (\<lambda>v1 v2. BoolGreater v1 v2)
       (evalBytesWith (\<lambda>v1 v2. bytesCompare v1 v2 < 0))
       (evalDecimalWith (\<lambda>v1 v2. v1 < v2))"

subsection \<open>Concatenation\<close>

definition validateBytesType ::
  "DataType \<Rightarrow> ErrorList \<Rightarrow> ExprNode \<Rightarrow> string \<Rightarrow> string \<Rightarrow> bool \<times> ErrorList" where
  "validateBytesType dt el n fn opn =
     (if \<not> Pending dt then
        (let major = fst (DecomposeDataType dt) in
         if major = DataTypeMajorFixedBytes \<or> major = DataTypeMajorDynamicBytes
         then (True, el)
         else (False, elAppendTypeErrorOperatorDataType el n fn opn dt))
      else (True, el))"

datatype extractBytesValueStatus =
    extractBytesValueStatusError
  | extractBytesValueStatusBytes
  | extractBytesValueStatusNullWithType
  | extractBytesValueStatusNullWithoutType

fun extractBytesValue ::
  "ExprNode \<Rightarrow> ErrorList \<Rightarrow> string \<Rightarrow> string
   \<Rightarrow> (byte list \<times> extractBytesValueStatus) \<times> ErrorList" where
  "extractBytesValue (BytesValueNode h v) el fn opn =
     ((v, extractBytesValueStatusBytes), el)"
| "extractBytesValue (NullValueNode h) el fn opn =
     (if Pending (GetType (NullValueNode h))
      then (([], extractBytesValueStatusNullWithoutType), el)
      else (([], extractBytesValueStatusNullWithType), el))"
| "extractBytesValue n el fn opn =
     (([], extractBytesValueStatusError), elAppendTypeErrorOperatorValueNode el n fn opn)"

text \<open>The closures of \<open>checkConcatOperator\<close>.\<close>

fun describeBytesMajor :: "DataTypeMajor \<Rightarrow> fault + string" where
  "describeBytesMajor DataTypeMajorFixedBytes = Inr ''fixed-size''"
| "describeBytesMajor DataTypeMajorDynamicBytes = Inr ''dynamically-sized''"
| "describeBytesMajor _ = Inl Panic"

definition checkConcatOperator_reportMismatch ::
  "ErrorList \<Rightarrow> ExprNode \<Rightarrow> DataTypeMajor \<Rightarrow> DataTypeMajor \<Rightarrow> fault + ErrorList" where
  "checkConcatOperator_reportMismatch el n major1 major2 =
     bindF (describeBytesMajor major1) (\<lambda>_.
       bindF (describeBytesMajor major2) (\<lambda>_.
         Inr (Append el \<lparr>Position = GetPosition n, Length = GetLength n,
           Category = ErrorCategorySemantic, Code = ErrorCodeTypeError,
           Severity = ErrorSeverityError, Prefix = ''CheckConcatOperator'',
           Message = MsgCannotUseBetweenBytes ''binary operator ||'' major1 major2\<rparr>)))"

definition checkConcatOperator_reportTooBig ::
  "ErrorList \<Rightarrow> ExprNode \<Rightarrow> DataType \<Rightarrow> DataType \<Rightarrow> ErrorList" where
  "checkConcatOperator_reportTooBig el n dt1 dt2 =
     Append
       (Append el \<lparr>Position = GetPosition n, Length = GetLength n,
          Category = ErrorCategorySemantic, Code = ErrorCodeTypeError,
          Severity = ErrorSeverityError, Prefix = ''CheckConcatOperator'',
          Message = MsgResultLongerThan32 ''binary operator ||'' dt1 dt2\<rparr>)
       \<lparr>Position = GetPosition n, Length = GetLength n,
        Category = ErrorCategoryNil, Code = ErrorCodeNil,
        Severity = ErrorSeverityNote, Prefix = ''CheckConcatOperator'',
        Message = MsgConvertBothArguments\<rparr>"

definition checkConcatOperator_infer ::
  "ExprNode \<Rightarrow> DataType \<Rightarrow> DataType \<Rightarrow> ErrorList
   \<Rightarrow> fault + ((DataType \<times> bool) \<times> ErrorList)" where
  "checkConcatOperator_infer n dtObject dtSubject el =
     (if Pending dtObject then Inl Panic
      else if Pending dtSubject then Inl Panic
      else
        let majorObject = fst (DecomposeDataType dtObject);
            minorObject = snd (DecomposeDataType dtObject);
            majorSubject = fst (DecomposeDataType dtSubject);
            minorSubject = snd (DecomposeDataType dtSubject)
        in
        if majorObject \<noteq> majorSubject then
          bindF (checkConcatOperator_reportMismatch el n majorObject majorSubject)
            (\<lambda>el. Inr ((DataTypeBad, False), el))
        else if majorObject = DataTypeMajorFixedBytes then
          (let sizeObject = int (unat minorObject) + 1;
               sizeSubject = int (unat minorSubject) + 1;
               sizeOperator = sizeObject + sizeSubject
           in
           if sizeOperator > 32
           then Inr ((DataTypeBad, False),
                  checkConcatOperator_reportTooBig el n dtObject dtSubject)
           else Inr ((ComposeDataType DataTypeMajorFixedBytes
                        (word_of_int (sizeOperator - 1)), True), el))
        else if majorObject = DataTypeMajorDynamicBytes then Inr ((dtObject, True), el)
        else Inl Panic)"

text \<open>
  The first part of \<open>checkConcatOperator\<close>, up to the type of the operator:
  it gives the operator node with its type, the two children as the local
  variables hold them, and the diagnostics, or \<open>None\<close> where the source
  returns \<open>nil\<close>.
\<close>

definition checkConcatOperator_types ::
  "checker \<Rightarrow> ExprNode \<Rightarrow> ErrorList
   \<Rightarrow> fault + ((ExprNode \<times> ExprNode \<times> ExprNode) option \<times> ErrorList)" where
  "checkConcatOperator_types chk n0 el0 =
     (let fn = ''CheckConcatOperator''; opn = ''binary operator ||'' in
      bindF (checkChildrenForBinaryOperator chk n0 el0) (\<lambda>(r, el).
        case r of
          None \<Rightarrow> Inr (None, el)
        | Some n \<Rightarrow>
            (let object = GetObject n; dtObject = GetType object in
             case validateBytesType dtObject el object fn opn of
               (False, el) \<Rightarrow> Inr (None, el)
             | (True, el) \<Rightarrow>
                 (let subject = GetSubject n; dtSubject = GetType subject in
                  case validateBytesType dtSubject el subject fn opn of
                    (False, el) \<Rightarrow> Inr (None, el)
                  | (True, el) \<Rightarrow>
                      (let dtObjectDetermined = (\<not> Pending dtObject);
                           dtSubjectDetermined = (\<not> Pending dtSubject);
                           finish = (\<lambda>n object subject el.
                             bindF (checkConcatOperator_infer n
                                      (GetType object) (GetType subject) el)
                               (\<lambda>((dt, ok), el).
                                  if \<not> ok then Inr (None, el)
                                  else Inr (Some (SetType n dt, object, subject), el)));
                           action = (\<lambda>dt.
                             let major = fst (DecomposeDataType dt) in
                             if major = DataTypeMajorFixedBytes
                             then Inr (typeActionInferWithMajor DataTypeMajorFixedBytes)
                             else if major = DataTypeMajorDynamicBytes
                             then Inr (typeActionAssign dt)
                             else Inl Panic)
                       in
                       if dtObjectDetermined \<and> dtSubjectDetermined then
                         finish n object subject el
                       else if dtObjectDetermined \<and> \<not> dtSubjectDetermined then
                         bindF (action dtObject) (\<lambda>a.
                           bindF (chk subject el (Some a)) (\<lambda>(r, el).
                             case r of
                               None \<Rightarrow> Inr (None, el)
                             | Some subject \<Rightarrow>
                                 finish (SetSubject n subject) object subject el))
                       else if \<not> dtObjectDetermined \<and> dtSubjectDetermined then
                         bindF (action dtSubject) (\<lambda>a.
                           bindF (chk object el (Some a)) (\<lambda>(r, el).
                             case r of
                               None \<Rightarrow> Inr (None, el)
                             | Some object \<Rightarrow>
                                 finish (SetObject n object) object subject el))
                       else Inr (Some (n, object, subject), el))))))"

text \<open>The folding of \<open>checkConcatOperator\<close>; without two constants it gives \<open>n\<close>.\<close>

definition checkConcatOperator_fold ::
  "ExprNode \<Rightarrow> DataType \<Rightarrow> ExprNode \<Rightarrow> ExprNode \<Rightarrow> ErrorList
   \<Rightarrow> ExprNode option \<times> ErrorList" where
  "checkConcatOperator_fold n dt object subject el =
     (let fn = ''CheckConcatOperator''; opn = ''binary operator ||'';
          stamp = (\<lambda>r. SetType (copySpan r n) dt)
      in
      if isValuer object \<and> isValuer subject then
        (case extractBytesValue object el fn opn of
           ((v1, status1), el) \<Rightarrow>
             if status1 = extractBytesValueStatusError then (None, el)
             else if status1 = extractBytesValueStatusNullWithoutType
             then (None, elAppendTypeErrorOperatorValueNode el object fn opn)
             else
               (case extractBytesValue subject el fn opn of
                  ((v2, status2), el) \<Rightarrow>
                    if status2 = extractBytesValueStatusError then (None, el)
                    else if status2 = extractBytesValueStatusNullWithoutType
                    then (None, elAppendTypeErrorOperatorValueNode el subject fn opn)
                    else
                      (let null = (status1 = extractBytesValueStatusNullWithType
                                   \<or> status2 = extractBytesValueStatusNullWithType)
                       in
                       if null then (Some (stamp (NullValueNode zeroHeader)), el)
                       else (Some (stamp (BytesValueNode zeroHeader (v1 @ v2))), el))))
      else (Some n, el))"

definition checkConcatOperator ::
  "checker \<Rightarrow> ExprNode \<Rightarrow> ErrorList \<Rightarrow> typeAction option \<Rightarrow> checked" where
  "checkConcatOperator chk n0 el0 ta =
     bindF (checkConcatOperator_types chk n0 el0) (\<lambda>(r, el).
       case r of
         None \<Rightarrow> Inr (None, el)
       | Some (n, object, subject) \<Rightarrow>
           (let dt = GetType n in
            case checkConcatOperator_fold n dt object subject el of
              (None, el) \<Rightarrow> Inr (None, el)
            | (Some r, el) \<Rightarrow>
                delegateTypeAction chk r ''CheckConcatOperator'' dt el ta))"

subsection \<open>Arithmetic operators\<close>

text \<open>
  The first part of \<open>checkArithmeticBinaryOperator\<close>, up to the type of the
  operator: it gives the operator node with its type, the two children as
  the local variables hold them, and the diagnostics, or \<open>None\<close> where the
  source returns \<open>nil\<close>.
\<close>

definition checkArithmeticBinaryOperator_types ::
  "checker \<Rightarrow> ExprNode \<Rightarrow> ErrorList \<Rightarrow> string \<Rightarrow> string
   \<Rightarrow> fault + ((ExprNode \<times> ExprNode \<times> ExprNode) option \<times> ErrorList)" where
  "checkArithmeticBinaryOperator_types chk n0 el0 fn opn =
     bindF (checkChildrenForBinaryOperator chk n0 el0) (\<lambda>(r, el).
       case r of
         None \<Rightarrow> Inr (None, el)
       | Some n \<Rightarrow>
           (let object = GetObject n; dtObject = GetType object in
            case validateNumberType dtObject el object fn opn of
              (False, el) \<Rightarrow> Inr (None, el)
            | (True, el) \<Rightarrow>
                (let subject = GetSubject n; dtSubject = GetType subject in
                 case validateNumberType dtSubject el subject fn opn of
                   (False, el) \<Rightarrow> Inr (None, el)
                 | (True, el) \<Rightarrow>
                     bindF (inferBinaryOperatorType chk n el fn opn)
                       (\<lambda>((dt, ok), n, el).
                          if ok then
                            Inr (Some (SetType n dt,
                                       afterCheck object (GetObject n),
                                       afterCheck subject (GetSubject n)), el)
                          else Inr (None, el)))))"

text \<open>The closure \<open>calc\<close> of \<open>checkArithmeticBinaryOperator\<close>.\<close>

definition checkArithmeticBinaryOperator_calc ::
  "Limits \<Rightarrow> CheckOptions \<Rightarrow> ExprNode \<Rightarrow> DataType \<Rightarrow> ErrorList \<Rightarrow> string
   \<Rightarrow> (Decimal \<Rightarrow> Decimal \<Rightarrow> Decimal) \<Rightarrow> Decimal \<Rightarrow> Decimal
   \<Rightarrow> fault + (Decimal \<times> bool \<times> ErrorList)" where
  "checkArithmeticBinaryOperator_calc lm opts n dt el fn eval v1 v2 =
     (let r = eval v1 v2;
          finish = (\<lambda>r el.
            let r = normalizeDecimal r in
            if \<not> safeDecimalRange lm r
            then Inr (r, False, elAppendConstantTooLongError lm el n fn r)
            else Inr (r, True, el))
      in
      if \<not> Pending dt then
        bindF (mustGetMinMax dt) (\<lambda>(mn, mx).
          let crop = bindF (cropDecimal dt r) (\<lambda>cropped.
                       finish cropped (elAppendOverflowWarning el n fn dt r cropped))
          in
          if r < mn \<or> r > mx then
            (if CheckWithSafeMath opts
             then Inr (r, False, elAppendOverflowError el n fn dt r mn mx)
             else crop)
          else crop)
      else finish r el)"

text \<open>
  The folding of \<open>checkArithmeticBinaryOperator\<close>; without two constants it
  gives \<open>n\<close>.
\<close>

definition checkArithmeticBinaryOperator_fold ::
  "Limits \<Rightarrow> CheckOptions \<Rightarrow> ExprNode \<Rightarrow> DataType \<Rightarrow> ExprNode \<Rightarrow> ExprNode \<Rightarrow> ErrorList
   \<Rightarrow> string \<Rightarrow> string \<Rightarrow> bool \<Rightarrow> (Decimal \<Rightarrow> Decimal \<Rightarrow> Decimal) \<Rightarrow> checked" where
  "checkArithmeticBinaryOperator_fold lm opts n dt object subject el fn opn division eval =
     (let stamp = (\<lambda>r. SetType (copySpan r n) dt) in
      if isValuer object \<and> isValuer subject then
        (case extractNumberValue object el fn opn of
           ((v1, status1), el) \<Rightarrow>
             if status1 = extractNumberValueStatusError then Inr (None, el)
             else if status1 = extractNumberValueStatusNullWithoutType
             then Inr (None, elAppendTypeErrorOperatorValueNode el object fn opn)
             else
               (case extractNumberValue subject el fn opn of
                  ((v2, status2), el) \<Rightarrow>
                    if status2 = extractNumberValueStatusError then Inr (None, el)
                    else if status2 = extractNumberValueStatusNullWithoutType
                    then Inr (None, elAppendTypeErrorOperatorValueNode el subject fn opn)
                    else
                      (let null = (status1 = extractNumberValueStatusNullWithType
                                   \<or> status2 = extractNumberValueStatusNullWithType);
                           decimal = (status1 = extractNumberValueStatusDecimal
                                      \<or> status2 = extractNumberValueStatusDecimal)
                       in
                       if null then Inr (Some (stamp (NullValueNode zeroHeader)), el)
                       else if division \<and> IsZero v2 then
                         Inr (None, Append el
                           \<lparr>Position = GetPosition subject, Length = GetLength subject,
                            Category = ErrorCategorySemantic,
                            Code = ErrorCodeDividedByZero,
                            Severity = ErrorSeverityError, Prefix = fn,
                            Message = MsgDivisionByZero\<rparr>)
                       else
                         bindF (checkArithmeticBinaryOperator_calc lm opts n dt el fn
                                  eval v1 v2)
                           (\<lambda>(vo, ok, el).
                              if \<not> ok then Inr (None, el)
                              else if division \<or> decimal
                              then Inr (Some (stamp (DecimalValueNode zeroHeader vo)), el)
                              else Inr (Some (stamp (IntegerValueNode zeroHeader False vo)),
                                        el)))))
      else Inr (Some n, el))"

definition checkArithmeticBinaryOperator ::
  "checker \<Rightarrow> Limits \<Rightarrow> CheckOptions \<Rightarrow> ExprNode \<Rightarrow> ErrorList \<Rightarrow> typeAction option
   \<Rightarrow> string \<Rightarrow> string \<Rightarrow> bool \<Rightarrow> (Decimal \<Rightarrow> Decimal \<Rightarrow> Decimal) \<Rightarrow> checked" where
  "checkArithmeticBinaryOperator chk lm opts n0 el0 ta fn opn division eval =
     bindF (checkArithmeticBinaryOperator_types chk n0 el0 fn opn) (\<lambda>(r, el).
       case r of
         None \<Rightarrow> Inr (None, el)
       | Some (n, object, subject) \<Rightarrow>
           (let dt = GetType n in
            bindF (checkArithmeticBinaryOperator_fold lm opts n dt object subject el
                     fn opn division eval)
              (\<lambda>(r, el).
                 case r of
                   None \<Rightarrow> Inr (None, el)
                 | Some r \<Rightarrow> delegateTypeAction chk r fn dt el ta)))"

definition checkAddOperator ::
  "checker \<Rightarrow> Limits \<Rightarrow> CheckOptions \<Rightarrow> ExprNode \<Rightarrow> ErrorList \<Rightarrow> typeAction option
   \<Rightarrow> checked" where
  "checkAddOperator chk lm opts n el ta =
     checkArithmeticBinaryOperator chk lm opts n el ta
       ''CheckAddOperator'' ''binary operator +'' False (\<lambda>v1 v2. v1 + v2)"

definition checkSubOperator ::
  "checker \<Rightarrow> Limits \<Rightarrow> CheckOptions \<Rightarrow> ExprNode \<Rightarrow> ErrorList \<Rightarrow> typeAction option
   \<Rightarrow> checked" where
  "checkSubOperator chk lm opts n el ta =
     checkArithmeticBinaryOperator chk lm opts n el ta
       ''CheckSubOperator'' ''binary operator -'' False (\<lambda>v1 v2. v1 - v2)"

definition checkMulOperator ::
  "checker \<Rightarrow> Limits \<Rightarrow> CheckOptions \<Rightarrow> ExprNode \<Rightarrow> ErrorList \<Rightarrow> typeAction option
   \<Rightarrow> checked" where
  "checkMulOperator chk lm opts n el ta =
     checkArithmeticBinaryOperator chk lm opts n el ta
       ''CheckMulOperator'' ''binary operator *'' False (\<lambda>v1 v2. v1 * v2)"

definition checkDivOperator ::
  "checker \<Rightarrow> Limits \<Rightarrow> CheckOptions \<Rightarrow> ExprNode \<Rightarrow> ErrorList \<Rightarrow> typeAction option
   \<Rightarrow> checked" where
  "checkDivOperator chk lm opts n el ta =
     checkArithmeticBinaryOperator chk lm opts n el ta
       ''CheckDivOperator'' ''binary operator /'' True
       (\<lambda>v1 v2. fst (QuoRem v1 v2 (MaxFractionalPartDigits lm)))"

definition checkModOperator ::
  "checker \<Rightarrow> Limits \<Rightarrow> CheckOptions \<Rightarrow> ExprNode \<Rightarrow> ErrorList \<Rightarrow> typeAction option
   \<Rightarrow> checked" where
  "checkModOperator chk lm opts n el ta =
     checkArithmeticBinaryOperator chk lm opts n el ta
       ''CheckModOperator'' ''binary operator %'' True
       (\<lambda>v1 v2. snd (QuoRem v1 v2 0))"

subsection \<open>The dispatcher\<close>

text \<open>
  \<open>checkExpr\<close> and the check functions call each other, and a check that
  delegates a type action checks the node it made once more, so the
  recursion is not along the tree alone. The first argument bounds the
  depth of the calls; when it is used up the result is \<open>OutOfFuel\<close>.
\<close>

primrec checkExpr ::
  "nat \<Rightarrow> Limits \<Rightarrow> Schema \<Rightarrow> CheckOptions \<Rightarrow> ExprNode \<Rightarrow> ErrorList \<Rightarrow> typeAction option
   \<Rightarrow> checked" where
  "checkExpr 0 lm s opts n el ta = Inl OutOfFuel"
| "checkExpr (Suc k) lm s opts n el ta =
     (case n of
        IdentifierNode h name \<Rightarrow> Inr (checkVariable h name s opts el ta)
      | BoolValueNode h v \<Rightarrow> Inr (checkBoolValue h v opts el ta)
      | AddressValueNode h v \<Rightarrow> Inr (checkAddressValue h v opts el ta)
      | IntegerValueNode h a v \<Rightarrow> checkIntegerValue lm h a v opts el ta
      | DecimalValueNode h v \<Rightarrow> checkDecimalValue lm h v opts el ta
      | BytesValueNode h v \<Rightarrow> Inr (checkBytesValue h v opts el ta)
      | NullValueNode h \<Rightarrow> Inr (checkNullValue h opts el ta)
      | UnaryOperatorNode u h t \<Rightarrow>
          (case u of
             PosOperator \<Rightarrow> checkPosOperator (checkExpr k lm s opts) n el ta
           | NegOperator \<Rightarrow> checkNegOperator (checkExpr k lm s opts) opts n el ta
           | NotOperator \<Rightarrow> checkNotOperator (checkExpr k lm s opts) n el ta
           | ParenOperator \<Rightarrow> checkParenOperator (checkExpr k lm s opts) n el ta)
      | BinaryOperatorNode b h x y \<Rightarrow>
          (case b of
             AndOperator \<Rightarrow> checkAndOperator (checkExpr k lm s opts) n el ta
           | OrOperator \<Rightarrow> checkOrOperator (checkExpr k lm s opts) n el ta
           | GreaterOrEqualOperator \<Rightarrow>
               checkGreaterOrEqualOperator (checkExpr k lm s opts) n el ta
           | LessOrEqualOperator \<Rightarrow>
               checkLessOrEqualOperator (checkExpr k lm s opts) n el ta
           | NotEqualOperator \<Rightarrow> checkNotEqualOperator (checkExpr k lm s opts) n el ta
           | EqualOperator \<Rightarrow> checkEqualOperator (checkExpr k lm s opts) n el ta
           | GreaterOperator \<Rightarrow> checkGreaterOperator (checkExpr k lm s opts) n el ta
           | LessOperator \<Rightarrow> checkLessOperator (checkExpr k lm s opts) n el ta
           | ConcatOperator \<Rightarrow> checkConcatOperator (checkExpr k lm s opts) n el ta
           | AddOperator \<Rightarrow> checkAddOperator (checkExpr k lm s opts) lm opts n el ta
           | SubOperator \<Rightarrow> checkSubOperator (checkExpr k lm s opts) lm opts n el ta
           | MulOperator \<Rightarrow> checkMulOperator (checkExpr k lm s opts) lm opts n el ta
           | DivOperator \<Rightarrow> checkDivOperator (checkExpr k lm s opts) lm opts n el ta
           | ModOperator \<Rightarrow> checkModOperator (checkExpr k lm s opts) lm opts n el ta))"

section \<open>Properties\<close>

subsection \<open>Evaluation\<close>

text \<open>
  The checks of concrete expressions below are computed by the simplifier
  from the definitions of the checker.
\<close>

lemma floor_rat_numeral_div [simp]:
  "\<lfloor>(numeral a :: rat) / numeral b\<rfloor> = numeral a div numeral b"
  by (metis floor_divide_of_int_eq of_int_numeral)

lemmas checker_defs =
  bindF_def Append_def normalizeDecimal_def safeDecimalRange_def IsZero_def
  Truncate_def Round_def QuoRem_def decTrunc_def
  Valid_def NewBoolValueFromBool_def boolCompare_def
  BoolGreaterOrEqual_def BoolLessOrEqual_def BoolNotEqual_def BoolEqual_def
  BoolGreater_def BoolLess_def
  DataTypeMinorDontCare_def ComposeDataType_def DecomposeDataType_def
  DataTypePending_def DataTypeNull_def DataTypeBad_def Pending_def
  toBytes.simps fromBytes_def fromBytesSigned_def
  zeroHeader_def GetPosition_def GetLength_def GetToken_def GetType_def
  SetPosition_def SetLength_def SetToken_def SetType_def copySpan_def
  elAppendTypeErrorAssignDataType_def verifyTypeAction_def delegateTypeAction_def
  checkVariable_def elAppendTypeErrorAssignValueNode_def
  checkBoolValue_def checkAddressValue_def
  mustGetMinMax_def mustDecimalEncode_def mustDecimalDecode_def cropDecimal_def
  elAppendConstantTooLongError_def elAppendOverflowError_def elAppendOverflowWarning_def
  checkIntegerValue_infer_def checkIntegerValue_def
  checkDecimalValue_infer_def checkDecimalValue_def
  checkBytesValue_step_def checkBytesValue_assign_def checkBytesValue_def checkNullValue_def
  checkChildrenForUnaryOperator_def elAppendTypeErrorOperatorValueNode_def
  elAppendTypeErrorOperatorDataType_def validateNumberType_def
  checkPosOperator_def checkNegOperator_calc_def checkNegOperator_def
  validateBoolType_def checkNotOperator_def checkParenOperator_def
  checkChildrenForBinaryOperator_def checkAndOperator_fold_def checkAndOperator_def
  checkOrOperator_fold_def checkOrOperator_def
  validateOrderedType_def elAppendTypeErrorOperandDataType_def inferBinaryOperatorType_def
  sameValueKind_def afterCheck_def elAppendTypeErrorOperandValueNode_def
  compatibleValueNodes_def foldRelationalOperator_def checkRelationalOperator_def
  evalBytesWith_def evalDecimalWith_def
  checkGreaterOrEqualOperator_def checkLessOrEqualOperator_def checkNotEqualOperator_def
  evalEqualBool_def evalEqualBytes_def evalEqualDecimal_def checkEqualOperator_def
  checkGreaterOperator_def checkLessOperator_def
  validateBytesType_def checkConcatOperator_reportMismatch_def
  checkConcatOperator_reportTooBig_def checkConcatOperator_infer_def
  checkConcatOperator_types_def checkConcatOperator_fold_def checkConcatOperator_def
  checkArithmeticBinaryOperator_types_def checkArithmeticBinaryOperator_calc_def
  checkArithmeticBinaryOperator_fold_def checkArithmeticBinaryOperator_def
  checkAddOperator_def checkSubOperator_def checkMulOperator_def
  checkDivOperator_def checkModOperator_def
  Let_def

lemma GetHeader_SetHeader: "GetHeader (SetHeader n h) = h"
  by (cases n) simp_all

lemma GetType_SetType: "GetType (SetType n dt) = dt"
  by (simp add: GetType_def SetType_def GetHeader_SetHeader)

lemma verifyTypeAction_node:
  "verifyTypeAction r fn dt el ta = (Some r1, el1) \<Longrightarrow> r1 = r"
  by (auto simp: verifyTypeAction_def split: option.splits typeAction.splits if_splits)

lemma checkConcatOperator_fold_type:
  assumes "checkConcatOperator_fold n dt object subject el = (Some r, el1)"
    and "GetType n = dt"
  shows "GetType r = dt"
  using assms
  by (auto simp: checkConcatOperator_fold_def Let_def GetType_SetType
           split: if_splits prod.splits)

subsection \<open>Overflow warnings of the arithmetic operators\<close>

text \<open>
  C1. In permissive mode, folding a binary arithmetic operator whose type is
  concrete should warn and crop exactly when the result is outside the range
  of the type. The closure \<open>calc\<close> of \<open>checkArithmeticBinaryOperator\<close> crops
  and warns whenever the type is not pending: the sum \<open>1 + 2\<close>, where the
  literal \<open>1\<close> has type \<open>int8\<close>, folds to \<open>3\<close>, which is inside
  \<open>[-128, 127]\<close>, and the warning "3 overflows int8, converted to 3" is
  appended all the same.
\<close>

theorem arithmetic_fold_warns_inside_range:
  "checkExpr (Suc (Suc k))
     \<lparr>MaxIntegerPartDigits = 200, MaxFractionalPartDigits = 200\<rparr> s
     \<lparr>CheckWithConstantOnly = False, CheckWithSafeMath = False\<rparr>
     (BinaryOperatorNode AddOperator
        \<lparr>NodePosition = 0, NodeLength = 5, NodeToken = ''1 + 2'',
         NodeType = DataTypePending\<rparr>
        (IntegerValueNode
           \<lparr>NodePosition = 0, NodeLength = 1, NodeToken = ''1'',
            NodeType = ComposeDataType DataTypeMajorInt 0\<rparr> False 1)
        (IntegerValueNode
           \<lparr>NodePosition = 4, NodeLength = 1, NodeToken = ''2'',
            NodeType = DataTypePending\<rparr> False 2))
     [] None =
   Inr (Some (IntegerValueNode
           \<lparr>NodePosition = 0, NodeLength = 5, NodeToken = ''1 + 2'',
            NodeType = ComposeDataType DataTypeMajorInt 0\<rparr> False 3),
        [\<lparr>Position = 0, Length = 5, Category = ErrorCategoryNil, Code = ErrorCodeNil,
          Severity = ErrorSeverityWarning, Prefix = ''CheckAddOperator'',
          Message = MsgOverflowsConverted ''1 + 2'' 3
                      (ComposeDataType DataTypeMajorInt 0) 3\<rparr>])"
  by (simp add: checker_defs)

subsection \<open>Folding of the order comparisons\<close>

text \<open>
  C2. Folding \<open>a <= b\<close> should give \<open>True\<close> exactly when \<open>a\<close> is at most
  \<open>b\<close>. The closure for decimal values of \<open>checkLessOrEqualOperator\<close> calls
  \<open>GreaterThanOrEqual\<close>: the comparison \<open>1 <= 2\<close> of two integer
  literals folds to \<open>False\<close>.
\<close>

theorem less_or_equal_folds_with_greater_or_equal:
  "checkExpr (Suc (Suc k))
     \<lparr>MaxIntegerPartDigits = 200, MaxFractionalPartDigits = 200\<rparr> s
     \<lparr>CheckWithConstantOnly = False, CheckWithSafeMath = False\<rparr>
     (BinaryOperatorNode LessOrEqualOperator
        \<lparr>NodePosition = 0, NodeLength = 6, NodeToken = ''1 <= 2'',
         NodeType = ComposeDataType DataTypeMajorBool DataTypeMinorDontCare\<rparr>
        (IntegerValueNode
           \<lparr>NodePosition = 0, NodeLength = 1, NodeToken = ''1'',
            NodeType = DataTypePending\<rparr> False 1)
        (IntegerValueNode
           \<lparr>NodePosition = 5, NodeLength = 1, NodeToken = ''2'',
            NodeType = DataTypePending\<rparr> False 2))
     [] None =
   Inr (Some (BoolValueNode
           \<lparr>NodePosition = 0, NodeLength = 6, NodeToken = ''1 <= 2'',
            NodeType = DataTypePending\<rparr> BoolValueFalse), [])"
  by (simp add: checker_defs)

subsection \<open>Failure without an error diagnostic\<close>

text \<open>
  C3. A check that returns \<open>nil\<close> should have appended a diagnostic of
  severity \<open>Error\<close>. In permissive mode the closure \<open>infer\<close> of
  \<open>checkDecimalValue\<close> crops a value below the minimum of \<open>fixed128x18\<close>,
  appends the warning and then returns \<open>false\<close>: the check of the literal
  \<open>-1000000000000000000000.5\<close> with the default inference returns \<open>nil\<close>
  and the only diagnostic is the warning.
\<close>

theorem decimal_infer_nil_with_warning_only:
  "(case checkExpr (Suc k)
          \<lparr>MaxIntegerPartDigits = 200, MaxFractionalPartDigits = 200\<rparr> s
          \<lparr>CheckWithConstantOnly = False, CheckWithSafeMath = False\<rparr>
          (DecimalValueNode
             \<lparr>NodePosition = 0, NodeLength = 25,
              NodeToken = ''-1000000000000000000000.5'', NodeType = DataTypePending\<rparr>
             (- 1000000000000000000000.5))
          [] (Some typeActionInferDefault) of
      Inr (r, el) \<Rightarrow> r = None \<and> map Severity el = [ErrorSeverityWarning]
    | Inl f \<Rightarrow> False)"
  by (simp add: checker_defs)

subsection \<open>Concatenation of a fixed-size operand and a bytes literal\<close>

text \<open>
  C4. With one operand of \<open>||\<close> of a fixed-size bytes type, the check of a
  pending bytes literal of \<open>L\<close> bytes with \<open>InferWithMajor(FixedBytes)\<close>
  should give it the type of exactly \<open>L\<close> bytes, which has minor \<open>L - 1\<close>.
  \<open>checkBytesValue\<close> composes the type with minor \<open>L\<close>, the type of
  \<open>L + 1\<close> bytes, and the assignment of that type then fails: for the column
  \<open>b\<close> of type \<open>bytes2\<close> the check of \<open>b || 0xBEEF\<close> returns \<open>nil\<close>
  with the error that \<open>bytes3\<close> is expected but the literal has 2 bytes.
\<close>

theorem concat_recheck_of_literal_fails:
  "checkExpr (Suc (Suc k))
     \<lparr>MaxIntegerPartDigits = 200, MaxFractionalPartDigits = 200\<rparr>
     \<lparr>TableName = ''t'',
      Columns = [''b'' \<mapsto> ComposeDataType DataTypeMajorFixedBytes 1]\<rparr>
     \<lparr>CheckWithConstantOnly = False, CheckWithSafeMath = False\<rparr>
     (BinaryOperatorNode ConcatOperator
        \<lparr>NodePosition = 0, NodeLength = 11, NodeToken = ''b || 0xBEEF'',
         NodeType = DataTypePending\<rparr>
        (IdentifierNode
           \<lparr>NodePosition = 0, NodeLength = 1, NodeToken = ''b'',
            NodeType = DataTypePending\<rparr> ''b'')
        (BytesValueNode
           \<lparr>NodePosition = 5, NodeLength = 6, NodeToken = ''0xBEEF'',
            NodeType = DataTypePending\<rparr> [0xBE, 0xEF]))
     [] None =
   Inr (None,
        [\<lparr>Position = 5, Length = 6, Category = ErrorCategorySemantic,
          Code = ErrorCodeTypeError, Severity = ErrorSeverityError,
          Prefix = ''CheckBytesValue'',
          Message = MsgExpectButHasBytes (ComposeDataType DataTypeMajorFixedBytes 2)
                      [0xBE, 0xEF] 2\<rparr>])"
  by (simp add: checker_defs)

subsection \<open>Ordered types\<close>

text \<open>
  C5. An operand of a comparison of order with a type of the unsigned
  fixed-point family should pass \<open>validateOrderedType\<close>. The function tests
  \<open>IsFixedRange\<close> twice and \<open>IsUfixedRange\<close> never: for the column \<open>x\<close>
  of type \<open>ufixed128x18\<close> the check of \<open>x < 1.5\<close> returns \<open>nil\<close> with
  the error that \<open><\<close> is not defined for the type.
\<close>

theorem ordered_validation_rejects_ufixed:
  "checkExpr (Suc (Suc k))
     \<lparr>MaxIntegerPartDigits = 200, MaxFractionalPartDigits = 200\<rparr>
     \<lparr>TableName = ''t'',
      Columns = [''x'' \<mapsto> ComposeDataType (DataTypeMajorUfixedPlus 15) 18]\<rparr>
     \<lparr>CheckWithConstantOnly = False, CheckWithSafeMath = False\<rparr>
     (BinaryOperatorNode LessOperator
        \<lparr>NodePosition = 0, NodeLength = 7, NodeToken = ''x < 1.5'',
         NodeType = ComposeDataType DataTypeMajorBool DataTypeMinorDontCare\<rparr>
        (IdentifierNode
           \<lparr>NodePosition = 0, NodeLength = 1, NodeToken = ''x'',
            NodeType = DataTypePending\<rparr> ''x'')
        (DecimalValueNode
           \<lparr>NodePosition = 4, NodeLength = 3, NodeToken = ''1.5'',
            NodeType = DataTypePending\<rparr> 1.5))
     [] None =
   Inr (None,
        [\<lparr>Position = 0, Length = 1, Category = ErrorCategorySemantic,
          Code = ErrorCodeTypeError, Severity = ErrorSeverityError,
          Prefix = ''CheckLessOperator'',
          Message = MsgNotDefinedForType ''binary operator <''
                      (ComposeDataType (DataTypeMajorUfixedPlus 15) 18)\<rparr>])"
  by (simp add: checker_defs)

subsection \<open>The span of a new node\<close>

text \<open>
  C6. A node that the checker allocates in place of another should carry
  the position, the length and the token of the node it replaces. Where
  \<open>checkIntegerValue\<close> turns an integer literal into an address literal it
  sets the three fields of the new node from the new node itself: the
  address literal at position 7 with length 42 is replaced by a node with
  position 0, length 0 and the empty token.
\<close>

theorem address_literal_loses_span:
  "checkExpr (Suc k)
     \<lparr>MaxIntegerPartDigits = 200, MaxFractionalPartDigits = 200\<rparr> s
     \<lparr>CheckWithConstantOnly = False, CheckWithSafeMath = False\<rparr>
     (IntegerValueNode
        \<lparr>NodePosition = 7, NodeLength = 42,
         NodeToken = ''0x0000000000000000000000000000000000000010'',
         NodeType = DataTypePending\<rparr> True 16)
     []
     (Some (typeActionAssign (ComposeDataType DataTypeMajorAddress DataTypeMinorDontCare))) =
   Inr (Some (AddressValueNode
           \<lparr>NodePosition = 0, NodeLength = 0, NodeToken = [],
            NodeType = DataTypePending\<rparr>
           [0, 0, 0, 0, 0, 0, 0, 0, 0, 0, 0, 0, 0, 0, 0, 0, 0, 0, 0, 16]), [])"
  by (simp add: checker_defs)

subsection \<open>Division by a constant zero\<close>























subsection \<open>The width of a concatenation\<close>

lemma concat_width_for_checker:
  assumes children: "checkChildrenForBinaryOperator chk n0 el0 = Inr (Some n, el)"
    and tobj: "GetType (GetObject n) = ComposeDataType DataTypeMajorFixedBytes ma"
    and tsub: "GetType (GetSubject n) = ComposeDataType DataTypeMajorFixedBytes mb"
    and a: "a = unat ma + 1"
    and b: "b = unat mb + 1"
  shows "(a + b \<le> 32 \<longrightarrow>
            checkConcatOperator_types chk n0 el0 =
              Inr (Some (SetType n (ComposeDataType DataTypeMajorFixedBytes (of_nat (a + b - 1))),
                         GetObject n, GetSubject n), el)
            \<and> unat (of_nat (a + b - 1) :: DataTypeMinor) + 1 = a + b
            \<and> (\<exists>res. checkConcatOperator chk n0 el0 ta = Inr res)
            \<and> (\<forall>r el1. checkConcatOperator chk n0 el0 ta = Inr (Some r, el1) \<longrightarrow>
                   GetType r = ComposeDataType DataTypeMajorFixedBytes (of_nat (a + b - 1))))
       \<and> (32 < a + b \<longrightarrow>
            checkConcatOperator chk n0 el0 ta =
              Inr (None, checkConcatOperator_reportTooBig el n
                           (GetType (GetObject n)) (GetType (GetSubject n))))"
proof -
  let ?dt = "ComposeDataType DataTypeMajorFixedBytes (of_nat (a + b - 1))"
  have w: "word_of_int (int (unat ma) + 1 + (int (unat mb) + 1) - 1) = (of_nat (a + b - 1) :: DataTypeMinor)"
    unfolding a b by (simp add: algebra_simps)
  have inf: "checkConcatOperator_infer n (GetType (GetObject n)) (GetType (GetSubject n)) el =
        (if a + b \<le> 32 then Inr ((?dt, True), el)
         else Inr ((DataTypeBad, False),
                checkConcatOperator_reportTooBig el n
                  (GetType (GetObject n)) (GetType (GetSubject n))))"
  proof -
    have s: "int (unat ma) + 1 + (int (unat mb) + 1) = int (a + b)"
      unfolding a b by simp
    have c: "(32 < int (unat ma) + 1 + (int (unat mb) + 1)) = (\<not> a + b \<le> 32)"
      unfolding s by linarith
    show ?thesis
      unfolding tobj tsub checkConcatOperator_infer_def Let_def Pending_def
        ComposeDataType_def DecomposeDataType_def fst_conv snd_conv
      using w c
      by (simp only: ComposeDataType_def DataTypeMajor.simps if_False if_True refl
            not_not split: if_splits) auto
  qed
  have types: "checkConcatOperator_types chk n0 el0 =
        (if a + b \<le> 32 then Inr (Some (SetType n ?dt, GetObject n, GetSubject n), el)
         else Inr (None, checkConcatOperator_reportTooBig el n
                  (GetType (GetObject n)) (GetType (GetSubject n))))"
    using children inf tobj tsub
    by (simp add: checkConcatOperator_types_def bindF_def Let_def validateBytesType_def
          Pending_def ComposeDataType_def DecomposeDataType_def)
  have width: "unat (of_nat (a + b - 1) :: DataTypeMinor) + 1 = a + b" if le: "a + b \<le> 32"
  proof -
    have "unat (of_nat (a + b - 1) :: DataTypeMinor) = (a + b - 1) mod 2 ^ LENGTH(8)"
      by (rule unat_of_nat)
    also have "\<dots> = a + b - 1" using le by simp
    finally show ?thesis using a by simp
  qed
  have ret: "GetType r = ?dt"
    if le: "a + b \<le> 32" and res: "checkConcatOperator chk n0 el0 ta = Inr (Some r, el1)" for r el1
  proof -
    obtain r0 el2 where f: "checkConcatOperator_fold (SetType n ?dt) ?dt (GetObject n) (GetSubject n) el = (r0, el2)"
      by (cases "checkConcatOperator_fold (SetType n ?dt) ?dt (GetObject n) (GetSubject n) el") auto
    from res types le f obtain r1 where r0: "r0 = Some r1"
      by (cases r0) (auto simp: checkConcatOperator_def bindF_def Let_def GetType_SetType)
    have t1: "GetType r1 = ?dt"
      using checkConcatOperator_fold_type [OF f [unfolded r0]] by (simp add: GetType_SetType)
    have np: "\<not> Pending ?dt" by (simp add: Pending_def ComposeDataType_def DecomposeDataType_def)
    from res types le f r0 np have "verifyTypeAction r1 ''CheckConcatOperator'' ?dt el2 ta = (Some r, el1)"
      by (simp add: checkConcatOperator_def bindF_def Let_def GetType_SetType delegateTypeAction_def)
    then have "r = r1" using verifyTypeAction_node by blast
    then show ?thesis using t1 by simp
  qed
  have tot: "\<exists>res. checkConcatOperator chk n0 el0 ta = Inr res" if le: "a + b \<le> 32"
  proof -
    have np: "\<not> Pending ?dt" by (simp add: Pending_def ComposeDataType_def DecomposeDataType_def)
    show ?thesis
      using types le np
      by (cases "checkConcatOperator_fold (SetType n ?dt) ?dt (GetObject n) (GetSubject n) el")
         (auto simp: checkConcatOperator_def bindF_def Let_def GetType_SetType
            delegateTypeAction_def split: option.splits)
  qed
  have big: "32 < a + b \<Longrightarrow> checkConcatOperator chk n0 el0 ta =
              Inr (None, checkConcatOperator_reportTooBig el n
                           (GetType (GetObject n)) (GetType (GetSubject n)))"
    using types by (simp add: checkConcatOperator_def bindF_def)
  show ?thesis using types width tot ret big by auto
qed

text \<open>
  C8. For \<open>||\<close> applied to two operands whose checked types are fixed-size
  bytes of widths \<open>a\<close> and \<open>b\<close> (the minor of such a type is the width
  minus one): when \<open>a + b \<le> 32\<close> the type of the operator is fixed-size
  bytes of width exactly \<open>a + b\<close>, the check returns, and every node that
  it returns has that type; when \<open>a + b > 32\<close> the check returns \<open>nil\<close> and appends
  the error that the result is longer than 32 bytes (with its note).
\<close>

theorem concat_fixed_bytes_width:
  assumes children: "checkChildrenForBinaryOperator (checkExpr k lm s opts)
                       (BinaryOperatorNode ConcatOperator h x y) el0 = Inr (Some n, el)"
    and tobj: "GetType (GetObject n) = ComposeDataType DataTypeMajorFixedBytes ma"
    and tsub: "GetType (GetSubject n) = ComposeDataType DataTypeMajorFixedBytes mb"
    and a: "a = unat ma + 1"
    and b: "b = unat mb + 1"
  shows "(a + b \<le> 32 \<longrightarrow>
            checkConcatOperator_types (checkExpr k lm s opts)
                (BinaryOperatorNode ConcatOperator h x y) el0 =
              Inr (Some (SetType n (ComposeDataType DataTypeMajorFixedBytes (of_nat (a + b - 1))),
                         GetObject n, GetSubject n), el)
            \<and> unat (of_nat (a + b - 1) :: DataTypeMinor) + 1 = a + b
            \<and> (\<exists>res. checkExpr (Suc k) lm s opts
                         (BinaryOperatorNode ConcatOperator h x y) el0 ta = Inr res)
            \<and> (\<forall>r el1. checkExpr (Suc k) lm s opts
                           (BinaryOperatorNode ConcatOperator h x y) el0 ta =
                         Inr (Some r, el1) \<longrightarrow>
                   GetType r = ComposeDataType DataTypeMajorFixedBytes (of_nat (a + b - 1))))
       \<and> (32 < a + b \<longrightarrow>
            checkExpr (Suc k) lm s opts (BinaryOperatorNode ConcatOperator h x y) el0 ta =
              Inr (None, checkConcatOperator_reportTooBig el n
                           (GetType (GetObject n)) (GetType (GetSubject n))))"
  using concat_width_for_checker [OF children tobj tsub a b, of ta] by simp

theorem concat_fixed_bytes_width_witness:
  "checkExpr (Suc (Suc 0))
     \<lparr>MaxIntegerPartDigits = 200, MaxFractionalPartDigits = 200\<rparr>
     \<lparr>TableName = ''t'',
      Columns = [''b2'' \<mapsto> ComposeDataType DataTypeMajorFixedBytes 1,
                 ''b31'' \<mapsto> ComposeDataType DataTypeMajorFixedBytes 30]\<rparr>
     \<lparr>CheckWithConstantOnly = False, CheckWithSafeMath = False\<rparr>
     (BinaryOperatorNode ConcatOperator
        \<lparr>NodePosition = 0, NodeLength = 8, NodeToken = ''b2 || b2'',
         NodeType = DataTypePending\<rparr>
        (IdentifierNode
           \<lparr>NodePosition = 0, NodeLength = 2, NodeToken = ''b2'',
            NodeType = DataTypePending\<rparr> ''b2'')
        (IdentifierNode
           \<lparr>NodePosition = 6, NodeLength = 2, NodeToken = ''b2'',
            NodeType = DataTypePending\<rparr> ''b2''))
     [] None =
   Inr (Some (BinaryOperatorNode ConcatOperator
        \<lparr>NodePosition = 0, NodeLength = 8, NodeToken = ''b2 || b2'',
         NodeType = ComposeDataType DataTypeMajorFixedBytes 3\<rparr>
        (IdentifierNode
           \<lparr>NodePosition = 0, NodeLength = 2, NodeToken = ''b2'',
            NodeType = ComposeDataType DataTypeMajorFixedBytes 1\<rparr> ''b2'')
        (IdentifierNode
           \<lparr>NodePosition = 6, NodeLength = 2, NodeToken = ''b2'',
            NodeType = ComposeDataType DataTypeMajorFixedBytes 1\<rparr> ''b2'')), [])
   \<and>
   checkExpr (Suc (Suc 0))
     \<lparr>MaxIntegerPartDigits = 200, MaxFractionalPartDigits = 200\<rparr>
     \<lparr>TableName = ''t'',
      Columns = [''b2'' \<mapsto> ComposeDataType DataTypeMajorFixedBytes 1,
                 ''b31'' \<mapsto> ComposeDataType DataTypeMajorFixedBytes 30]\<rparr>
     \<lparr>CheckWithConstantOnly = False, CheckWithSafeMath = False\<rparr>
     (BinaryOperatorNode ConcatOperator
        \<lparr>NodePosition = 0, NodeLength = 9, NodeToken = ''b31 || b2'',
         NodeType = DataTypePending\<rparr>
        (IdentifierNode
           \<lparr>NodePosition = 0, NodeLength = 3, NodeToken = ''b31'',
            NodeType = DataTypePending\<rparr> ''b31'')
        (IdentifierNode
           \<lparr>NodePosition = 7, NodeLength = 2, NodeToken = ''b2'',
            NodeType = DataTypePending\<rparr> ''b2''))
     [] None =
   Inr (None,
        [\<lparr>Position = 0, Length = 9, Category = ErrorCategorySemantic,
          Code = ErrorCodeTypeError, Severity = ErrorSeverityError,
          Prefix = ''CheckConcatOperator'',
          Message = MsgResultLongerThan32 ''binary operator ||''
                      (ComposeDataType DataTypeMajorFixedBytes 30)
                      (ComposeDataType DataTypeMajorFixedBytes 1)\<rparr>,
         \<lparr>Position = 0, Length = 9, Category = ErrorCategoryNil, Code = ErrorCodeNil,
          Severity = ErrorSeverityNote, Prefix = ''CheckConcatOperator'',
          Message = MsgConvertBothArguments\<rparr>])"
proof -
  let ?lm = "\<lparr>MaxIntegerPartDigits = 200, MaxFractionalPartDigits = 200\<rparr>"
  let ?s = "\<lparr>TableName = ''t'',
      Columns = [''b2'' \<mapsto> ComposeDataType DataTypeMajorFixedBytes 1,
                 ''b31'' \<mapsto> ComposeDataType DataTypeMajorFixedBytes 30]\<rparr>"
  let ?opts = "\<lparr>CheckWithConstantOnly = False, CheckWithSafeMath = False\<rparr>"
  let ?chk = "checkExpr (Suc 0) ?lm ?s ?opts"
  let ?x = "IdentifierNode
           \<lparr>NodePosition = 0, NodeLength = 2, NodeToken = ''b2'',
            NodeType = DataTypePending\<rparr> ''b2''"
  let ?y = "IdentifierNode
           \<lparr>NodePosition = 6, NodeLength = 2, NodeToken = ''b2'',
            NodeType = DataTypePending\<rparr> ''b2''"
  let ?x1 = "IdentifierNode
           \<lparr>NodePosition = 0, NodeLength = 2, NodeToken = ''b2'',
            NodeType = ComposeDataType DataTypeMajorFixedBytes 1\<rparr> ''b2''"
  let ?y1 = "IdentifierNode
           \<lparr>NodePosition = 6, NodeLength = 2, NodeToken = ''b2'',
            NodeType = ComposeDataType DataTypeMajorFixedBytes 1\<rparr> ''b2''"
  let ?h = "\<lparr>NodePosition = 0, NodeLength = 8, NodeToken = ''b2 || b2'',
         NodeType = DataTypePending\<rparr>"
  let ?n = "BinaryOperatorNode ConcatOperator ?h ?x ?y"
  let ?n1 = "BinaryOperatorNode ConcatOperator ?h ?x1 ?y1"
  let ?u = "IdentifierNode
           \<lparr>NodePosition = 0, NodeLength = 3, NodeToken = ''b31'',
            NodeType = DataTypePending\<rparr> ''b31''"
  let ?v = "IdentifierNode
           \<lparr>NodePosition = 7, NodeLength = 2, NodeToken = ''b2'',
            NodeType = DataTypePending\<rparr> ''b2''"
  let ?u1 = "IdentifierNode
           \<lparr>NodePosition = 0, NodeLength = 3, NodeToken = ''b31'',
            NodeType = ComposeDataType DataTypeMajorFixedBytes 30\<rparr> ''b31''"
  let ?v1 = "IdentifierNode
           \<lparr>NodePosition = 7, NodeLength = 2, NodeToken = ''b2'',
            NodeType = ComposeDataType DataTypeMajorFixedBytes 1\<rparr> ''b2''"
  let ?g = "\<lparr>NodePosition = 0, NodeLength = 9, NodeToken = ''b31 || b2'',
         NodeType = DataTypePending\<rparr>"
  let ?m = "BinaryOperatorNode ConcatOperator ?g ?u ?v"
  let ?m1 = "BinaryOperatorNode ConcatOperator ?g ?u1 ?v1"
  have cn: "checkChildrenForBinaryOperator ?chk ?n [] = Inr (Some ?n1, [])"
    by (simp add: checker_defs)
  have cm: "checkChildrenForBinaryOperator ?chk ?m [] = Inr (Some ?m1, [])"
    by (simp add: checker_defs)
  have tn: "GetType (GetObject ?n1) = ComposeDataType DataTypeMajorFixedBytes 1"
           "GetType (GetSubject ?n1) = ComposeDataType DataTypeMajorFixedBytes 1"
    by (simp_all add: GetType_def)
  have tm: "GetType (GetObject ?m1) = ComposeDataType DataTypeMajorFixedBytes 30"
           "GetType (GetSubject ?m1) = ComposeDataType DataTypeMajorFixedBytes 1"
    by (simp_all add: GetType_def)
  have u1: "unat (1 :: DataTypeMinor) = 1" and u30: "unat (30 :: DataTypeMinor) = 30"
    by simp_all
  have w2: "(2::nat) = unat (1 :: DataTypeMinor) + 1" unfolding u1 by simp
  have w31: "(31::nat) = unat (30 :: DataTypeMinor) + 1" unfolding u30 by simp
  have small: "checkConcatOperator_types ?chk ?n [] =
      Inr (Some (SetType ?n1 (ComposeDataType DataTypeMajorFixedBytes (of_nat (2 + 2 - 1))),
                 GetObject ?n1, GetSubject ?n1), [])"
    using concat_fixed_bytes_width [OF cn tn w2 w2, of None] by simp
  have big: "checkConcatOperator ?chk ?m [] None =
      Inr (None, checkConcatOperator_reportTooBig [] ?m1
                   (GetType (GetObject ?m1)) (GetType (GetSubject ?m1)))"
    using concat_fixed_bytes_width [OF cm tm w31 w2, of None]
    by (simp add: checkConcatOperator_def [symmetric])
  have res: "checkConcatOperator ?chk ?n [] None =
      Inr (Some (SetType ?n1 (ComposeDataType DataTypeMajorFixedBytes 3)), [])"
    using small
    by (simp add: checkConcatOperator_def bindF_def Let_def checkConcatOperator_fold_def
          delegateTypeAction_def verifyTypeAction_def GetType_SetType Pending_def
          ComposeDataType_def DecomposeDataType_def)
  show ?thesis
    using res big
    by (simp add: SetType_def GetType_def checkConcatOperator_reportTooBig_def Append_def
          GetPosition_def GetLength_def)
qed

subsection \<open>Absorption in \<open>AND\<close> and \<open>OR\<close>\<close>

lemma and_or_absorb_for_checker:
  assumes children: "checkChildrenForBinaryOperator chk n0 el0 = Inr (Some n, el)"
    and obj: "GetObject n = BoolValueNode h1 v1
              \<or> (GetObject n = NullValueNode h1 \<and> v1 = BoolValueUnknown)"
    and sub: "GetSubject n = BoolValueNode h2 v2
              \<or> (GetSubject n = NullValueNode h2 \<and> v2 = BoolValueUnknown)"
    and tobj: "Pending (NodeType h1)
               \<or> fst (DecomposeDataType (NodeType h1)) = DataTypeMajorBool"
    and tsub: "Pending (NodeType h2)
               \<or> fst (DecomposeDataType (NodeType h2)) = DataTypeMajorBool"
    and accept: "\<forall>adt. ta = Some (typeActionAssign adt) \<longrightarrow> adt = GetType n"
  shows "(v1 = BoolValueFalse \<or> v2 = BoolValueFalse \<longrightarrow>
            checkAndOperator chk n0 el0 ta =
              Inr (Some (copySpan (BoolValueNode zeroHeader BoolValueFalse) n), el))
       \<and> (v1 = BoolValueTrue \<or> v2 = BoolValueTrue \<longrightarrow>
            checkOrOperator chk n0 el0 ta =
              Inr (Some (copySpan (BoolValueNode zeroHeader BoolValueTrue) n), el))"
proof -
  have vo: "validateBoolType (GetType (GetObject n)) e (GetObject n) f p = (True, e)" for e f p
    using obj tobj by (auto simp: validateBoolType_def GetType_def Let_def)
  have vs: "validateBoolType (GetType (GetSubject n)) e (GetSubject n) f p = (True, e)" for e f p
    using sub tsub by (auto simp: validateBoolType_def GetType_def Let_def)
  have eo: "isValuer (GetObject n) \<and> extractBoolValue (GetObject n) e f p = ((v1, True), e)" for e f p
    using obj by auto
  have es: "isValuer (GetSubject n) \<and> extractBoolValue (GetSubject n) e f p = ((v2, True), e)" for e f p
    using sub by auto
  have ver: "verifyTypeAction r f (GetType n) e ta = (Some r, e)" for r f e
    using accept by (auto simp: verifyTypeAction_def split: option.splits typeAction.splits)
  have pre: "(case ta of
                Some (typeActionAssign adt) \<Rightarrow> if GetType n \<noteq> adt then X adt else Y
              | _ \<Rightarrow> Y) = Y" for X :: "DataType \<Rightarrow> ExprNode option \<times> ErrorList" and Y
    using accept by (auto split: option.splits typeAction.splits)
  have andF: "v1 = BoolValueFalse \<or> v2 = BoolValueFalse \<Longrightarrow>
        (if Valid v1 \<and> Valid v2 then BoolAnd v1 v2
         else if v1 = BoolValueFalse \<or> v2 = BoolValueFalse then BoolValueFalse
         else BoolValueZero) = BoolValueFalse"
    by (cases v1; cases v2) (auto simp: Valid_def)
  have orT: "v1 = BoolValueTrue \<or> v2 = BoolValueTrue \<Longrightarrow>
        (if Valid v1 \<and> Valid v2 then BoolOr v1 v2
         else if v1 = BoolValueTrue \<or> v2 = BoolValueTrue then BoolValueTrue
         else BoolValueZero) = BoolValueTrue"
    by (cases v1; cases v2) (auto simp: Valid_def)
  have A: "v1 = BoolValueFalse \<or> v2 = BoolValueFalse \<Longrightarrow>
        checkAndOperator_fold n el ta =
          (Some (copySpan (BoolValueNode zeroHeader BoolValueFalse) n), el)"
    using andF by (simp add: checkAndOperator_fold_def Let_def vo vs eo es ver Valid_def)
  have O: "v1 = BoolValueTrue \<or> v2 = BoolValueTrue \<Longrightarrow>
        checkOrOperator_fold n el ta =
          (Some (copySpan (BoolValueNode zeroHeader BoolValueTrue) n), el)"
    using orT by (simp add: checkOrOperator_fold_def Let_def vo vs eo es ver pre Valid_def)
  show ?thesis
    using A O children by (auto simp: checkAndOperator_def checkOrOperator_def bindF_def)
qed

text \<open>
  C9. When both checked operands of \<open>AND\<close> or \<open>OR\<close> are boolean
  constants, a \<open>NULL\<close> reading as \<open>Unknown\<close>: if an operand is the
  constant \<open>False\<close> then \<open>AND\<close> folds to the constant \<open>False\<close>, and if
  an operand is the constant \<open>True\<close> then \<open>OR\<close> folds to the constant
  \<open>True\<close>, whatever the other operand is, \<open>Unknown\<close> included. The
  folded node has the span of the operator. The type action is one that the
  type of the operator satisfies.
\<close>

theorem and_or_absorb_unknown:
  assumes children: "checkChildrenForBinaryOperator (checkExpr k lm s opts)
                       (BinaryOperatorNode b h x y) el0 = Inr (Some n, el)"
    and obj: "GetObject n = BoolValueNode h1 v1
              \<or> (GetObject n = NullValueNode h1 \<and> v1 = BoolValueUnknown)"
    and sub: "GetSubject n = BoolValueNode h2 v2
              \<or> (GetSubject n = NullValueNode h2 \<and> v2 = BoolValueUnknown)"
    and tobj: "Pending (NodeType h1)
               \<or> fst (DecomposeDataType (NodeType h1)) = DataTypeMajorBool"
    and tsub: "Pending (NodeType h2)
               \<or> fst (DecomposeDataType (NodeType h2)) = DataTypeMajorBool"
    and accept: "\<forall>adt. ta = Some (typeActionAssign adt) \<longrightarrow> adt = GetType n"
  shows "(b = AndOperator \<and> (v1 = BoolValueFalse \<or> v2 = BoolValueFalse) \<longrightarrow>
            checkExpr (Suc k) lm s opts (BinaryOperatorNode b h x y) el0 ta =
              Inr (Some (copySpan (BoolValueNode zeroHeader BoolValueFalse) n), el))
       \<and> (b = OrOperator \<and> (v1 = BoolValueTrue \<or> v2 = BoolValueTrue) \<longrightarrow>
            checkExpr (Suc k) lm s opts (BinaryOperatorNode b h x y) el0 ta =
              Inr (Some (copySpan (BoolValueNode zeroHeader BoolValueTrue) n), el))"
  using and_or_absorb_for_checker [OF children obj sub tobj tsub accept] by auto

theorem and_or_absorb_unknown_witness:
  "checkExpr (Suc (Suc 0))
     \<lparr>MaxIntegerPartDigits = 200, MaxFractionalPartDigits = 200\<rparr>
     \<lparr>TableName = ''t'', Columns = Map.empty\<rparr>
     \<lparr>CheckWithConstantOnly = False, CheckWithSafeMath = False\<rparr>
     (BinaryOperatorNode AndOperator
        \<lparr>NodePosition = 0, NodeLength = 14, NodeToken = ''FALSE AND NULL'',
         NodeType = ComposeDataType DataTypeMajorBool DataTypeMinorDontCare\<rparr>
        (BoolValueNode
           \<lparr>NodePosition = 0, NodeLength = 5, NodeToken = ''FALSE'',
            NodeType = ComposeDataType DataTypeMajorBool DataTypeMinorDontCare\<rparr>
           BoolValueFalse)
        (NullValueNode
           \<lparr>NodePosition = 10, NodeLength = 4, NodeToken = ''NULL'',
            NodeType = ComposeDataType DataTypeMajorBool DataTypeMinorDontCare\<rparr>))
     [] None =
   Inr (Some (BoolValueNode
           \<lparr>NodePosition = 0, NodeLength = 14, NodeToken = ''FALSE AND NULL'',
            NodeType = DataTypePending\<rparr> BoolValueFalse), [])
   \<and>
   checkExpr (Suc (Suc 0))
     \<lparr>MaxIntegerPartDigits = 200, MaxFractionalPartDigits = 200\<rparr>
     \<lparr>TableName = ''t'', Columns = Map.empty\<rparr>
     \<lparr>CheckWithConstantOnly = False, CheckWithSafeMath = False\<rparr>
     (BinaryOperatorNode OrOperator
        \<lparr>NodePosition = 0, NodeLength = 12, NodeToken = ''NULL OR TRUE'',
         NodeType = ComposeDataType DataTypeMajorBool DataTypeMinorDontCare\<rparr>
        (NullValueNode
           \<lparr>NodePosition = 0, NodeLength = 4, NodeToken = ''NULL'',
            NodeType = ComposeDataType DataTypeMajorBool DataTypeMinorDontCare\<rparr>)
        (BoolValueNode
           \<lparr>NodePosition = 8, NodeLength = 4, NodeToken = ''TRUE'',
            NodeType = ComposeDataType DataTypeMajorBool DataTypeMinorDontCare\<rparr>
           BoolValueTrue))
     []
     (Some (typeActionAssign (ComposeDataType DataTypeMajorBool DataTypeMinorDontCare))) =
   Inr (Some (BoolValueNode
           \<lparr>NodePosition = 0, NodeLength = 12, NodeToken = ''NULL OR TRUE'',
            NodeType = DataTypePending\<rparr> BoolValueTrue), [])"
proof -
  let ?lm = "\<lparr>MaxIntegerPartDigits = 200, MaxFractionalPartDigits = 200\<rparr>"
  let ?s = "\<lparr>TableName = ''t'', Columns = Map.empty\<rparr>"
  let ?opts = "\<lparr>CheckWithConstantOnly = False, CheckWithSafeMath = False\<rparr>"
  let ?bool = "ComposeDataType DataTypeMajorBool DataTypeMinorDontCare"
  let ?hf = "\<lparr>NodePosition = 0, NodeLength = 5, NodeToken = ''FALSE'', NodeType = ?bool\<rparr>"
  let ?hn = "\<lparr>NodePosition = 10, NodeLength = 4, NodeToken = ''NULL'', NodeType = ?bool\<rparr>"
  let ?a = "BinaryOperatorNode AndOperator
        \<lparr>NodePosition = 0, NodeLength = 14, NodeToken = ''FALSE AND NULL'',
         NodeType = ?bool\<rparr> (BoolValueNode ?hf BoolValueFalse) (NullValueNode ?hn)"
  let ?hn2 = "\<lparr>NodePosition = 0, NodeLength = 4, NodeToken = ''NULL'', NodeType = ?bool\<rparr>"
  let ?ht = "\<lparr>NodePosition = 8, NodeLength = 4, NodeToken = ''TRUE'', NodeType = ?bool\<rparr>"
  let ?o = "BinaryOperatorNode OrOperator
        \<lparr>NodePosition = 0, NodeLength = 12, NodeToken = ''NULL OR TRUE'',
         NodeType = ?bool\<rparr> (NullValueNode ?hn2) (BoolValueNode ?ht BoolValueTrue)"
  have ca: "checkChildrenForBinaryOperator (checkExpr (Suc 0) ?lm ?s ?opts) ?a [] =
              Inr (Some ?a, [])"
    by (simp add: checker_defs)
  have co: "checkChildrenForBinaryOperator (checkExpr (Suc 0) ?lm ?s ?opts) ?o [] =
              Inr (Some ?o, [])"
    by (simp add: checker_defs)
  have A: "checkExpr (Suc (Suc 0)) ?lm ?s ?opts ?a [] None =
             Inr (Some (copySpan (BoolValueNode zeroHeader BoolValueFalse) ?a), [])"
    using and_or_absorb_unknown [OF ca, of ?hf BoolValueFalse ?hn BoolValueUnknown None]
    by (simp add: Pending_def DecomposeDataType_def ComposeDataType_def)
  have O: "checkExpr (Suc (Suc 0)) ?lm ?s ?opts ?o [] (Some (typeActionAssign ?bool)) =
             Inr (Some (copySpan (BoolValueNode zeroHeader BoolValueTrue) ?o), [])"
    using and_or_absorb_unknown [OF co, of ?hn2 BoolValueUnknown ?ht BoolValueTrue
            "Some (typeActionAssign ?bool)"]
    by (simp add: Pending_def DecomposeDataType_def ComposeDataType_def GetType_def)
  show ?thesis
    unfolding A O
    by (simp add: copySpan_def SetToken_def SetLength_def SetPosition_def GetToken_def
          GetLength_def GetPosition_def zeroHeader_def)
qed

subsection \<open>A \<open>NULL\<close> operand of a division\<close>

lemma types_stage_type:
  assumes types: "checkArithmeticBinaryOperator_types chk n0 el0 fn opn =
                    Inr (Some (n1, object, subject), el1)"
    and null: "\<not> Pending (GetType object) \<or> \<not> Pending (GetType subject)"
  shows "\<not> Pending (GetType n1)"
proof -
  have aa: "GetType (afterCheck a a) = GetType a" for a
    by (simp add: afterCheck_def)
  show ?thesis
    using types null
    by (auto simp: checkArithmeticBinaryOperator_types_def inferBinaryOperatorType_def
          bindF_def Let_def GetType_SetType aa
          split: sum.splits prod.splits option.splits if_splits bool.splits)
qed

text \<open>
  C10. When the two checked and typed operands of \<open>/\<close> or \<open>%\<close> are
  numbers or typed \<open>NULL\<close>s and at least one is a typed \<open>NULL\<close>, the
  folding gives a \<open>NULL\<close> node with the span and the type of the operator
  and appends no diagnostic, whatever the value of the divisor is: the test
  for \<open>NULL\<close> comes before the test for a zero divisor. The check returns
  what \<open>verifyTypeAction\<close> makes of that node, which appends nothing but
  the error of an assignment of another type.
\<close>

theorem null_operand_precedes_zero_divisor:
  assumes b: "b = DivOperator \<or> b = ModOperator"
    and types: "checkArithmeticBinaryOperator_types (checkExpr k lm s opts)
                  (BinaryOperatorNode b h x y) el0
                  (if b = DivOperator then ''CheckDivOperator'' else ''CheckModOperator'')
                  (if b = DivOperator then ''binary operator /'' else ''binary operator %'') =
                  Inr (Some (n1, object, subject), el1)"
    and obj: "object = IntegerValueNode h1 a1 v1 \<or> object = DecimalValueNode h1 v1
              \<or> (object = NullValueNode h1 \<and> \<not> Pending (NodeType h1))"
    and sub: "subject = IntegerValueNode h2 a2 v2 \<or> subject = DecimalValueNode h2 v2
              \<or> (subject = NullValueNode h2 \<and> \<not> Pending (NodeType h2))"
    and null: "object = NullValueNode h1 \<or> subject = NullValueNode h2"
  shows "checkArithmeticBinaryOperator_fold lm opts n1 (GetType n1) object subject el1
           fn opn division eval =
           Inr (Some (SetType (copySpan (NullValueNode zeroHeader) n1) (GetType n1)), el1)
         \<and> checkExpr (Suc k) lm s opts (BinaryOperatorNode b h x y) el0 ta =
           Inr (verifyTypeAction
                  (SetType (copySpan (NullValueNode zeroHeader) n1) (GetType n1))
                  (if b = DivOperator then ''CheckDivOperator'' else ''CheckModOperator'')
                  (GetType n1) el1 ta)"
proof -
  let ?chk = "checkExpr k lm s opts"
  let ?n0 = "BinaryOperatorNode b h x y"
  let ?fn = "if b = DivOperator then ''CheckDivOperator'' else ''CheckModOperator''"
  let ?opn = "if b = DivOperator then ''binary operator /'' else ''binary operator %''"
  let ?eval = "if b = DivOperator
               then (\<lambda>v1 v2. fst (QuoRem v1 v2 (MaxFractionalPartDigits lm)))
               else (\<lambda>v1 v2. snd (QuoRem v1 v2 0))"
  let ?null = "SetType (copySpan (NullValueNode zeroHeader) n1) (GetType n1)"
  have run: "checkExpr (Suc k) lm s opts ?n0 el0 ta =
               checkArithmeticBinaryOperator ?chk lm opts ?n0 el0 ta ?fn ?opn True ?eval"
    using b by (auto simp: checkDivOperator_def checkModOperator_def)
  have fold: "checkArithmeticBinaryOperator_fold lm opts n1 (GetType n1) object subject el1
           f p d e = Inr (Some ?null, el1)" for f p d e
    using obj sub null
    by (auto simp: checkArithmeticBinaryOperator_fold_def Let_def GetType_def)
  have "\<not> Pending (GetType object) \<or> \<not> Pending (GetType subject)"
    using obj sub null by (auto simp: GetType_def)
  then have np: "\<not> Pending (GetType n1)"
    using types_stage_type [OF types] by blast
  have "checkExpr (Suc k) lm s opts ?n0 el0 ta =
          Inr (verifyTypeAction ?null ?fn (GetType n1) el1 ta)"
    unfolding run using types fold np
    by (simp add: checkArithmeticBinaryOperator_def bindF_def Let_def delegateTypeAction_def)
  then show ?thesis using fold by simp
qed

theorem null_operand_precedes_zero_divisor_witness:
  "checkExpr (Suc (Suc 0))
     \<lparr>MaxIntegerPartDigits = 200, MaxFractionalPartDigits = 200\<rparr>
     \<lparr>TableName = ''t'', Columns = Map.empty\<rparr>
     \<lparr>CheckWithConstantOnly = False, CheckWithSafeMath = False\<rparr>
     (BinaryOperatorNode DivOperator
        \<lparr>NodePosition = 0, NodeLength = 8, NodeToken = ''NULL / 0'',
         NodeType = DataTypePending\<rparr>
        (NullValueNode
           \<lparr>NodePosition = 0, NodeLength = 4, NodeToken = ''NULL'',
            NodeType = ComposeDataType DataTypeMajorInt 0\<rparr>)
        (IntegerValueNode
           \<lparr>NodePosition = 7, NodeLength = 1, NodeToken = ''0'',
            NodeType = DataTypePending\<rparr> False 0))
     [] None =
   Inr (Some (NullValueNode
           \<lparr>NodePosition = 0, NodeLength = 8, NodeToken = ''NULL / 0'',
            NodeType = ComposeDataType DataTypeMajorInt 0\<rparr>), [])"
proof -
  let ?lm = "\<lparr>MaxIntegerPartDigits = 200, MaxFractionalPartDigits = 200\<rparr>"
  let ?s = "\<lparr>TableName = ''t'', Columns = Map.empty\<rparr>"
  let ?opts = "\<lparr>CheckWithConstantOnly = False, CheckWithSafeMath = False\<rparr>"
  let ?x = "NullValueNode
           \<lparr>NodePosition = 0, NodeLength = 4, NodeToken = ''NULL'',
            NodeType = ComposeDataType DataTypeMajorInt 0\<rparr>"
  let ?y = "IntegerValueNode
           \<lparr>NodePosition = 7, NodeLength = 1, NodeToken = ''0'',
            NodeType = DataTypePending\<rparr> False 0"
  let ?y1 = "IntegerValueNode
           \<lparr>NodePosition = 7, NodeLength = 1, NodeToken = ''0'',
            NodeType = ComposeDataType DataTypeMajorInt 0\<rparr> False 0"
  let ?n = "BinaryOperatorNode DivOperator
        \<lparr>NodePosition = 0, NodeLength = 8, NodeToken = ''NULL / 0'',
         NodeType = DataTypePending\<rparr> ?x ?y"
  let ?n1 = "BinaryOperatorNode DivOperator
        \<lparr>NodePosition = 0, NodeLength = 8, NodeToken = ''NULL / 0'',
         NodeType = ComposeDataType DataTypeMajorInt 0\<rparr> ?x ?y1"
  let ?hx = "\<lparr>NodePosition = 0, NodeLength = 4, NodeToken = ''NULL'',
            NodeType = ComposeDataType DataTypeMajorInt 0\<rparr>"
  let ?hy1 = "\<lparr>NodePosition = 7, NodeLength = 1, NodeToken = ''0'',
            NodeType = ComposeDataType DataTypeMajorInt 0\<rparr>"
  have b: "DivOperator = DivOperator \<or> DivOperator = ModOperator" by simp
  have types: "checkArithmeticBinaryOperator_types (checkExpr (Suc 0) ?lm ?s ?opts) ?n []
                 (if DivOperator = DivOperator then ''CheckDivOperator''
                  else ''CheckModOperator'')
                 (if DivOperator = DivOperator then ''binary operator /''
                  else ''binary operator %'') = Inr (Some (?n1, ?x, ?y1), [])"
    by (simp add: checker_defs)
  have obj: "?x = IntegerValueNode ?hx False 0 \<or> ?x = DecimalValueNode ?hx 0
             \<or> (?x = NullValueNode ?hx \<and> \<not> Pending (NodeType ?hx))"
    by (simp add: Pending_def DecomposeDataType_def ComposeDataType_def)
  have sub: "?y1 = IntegerValueNode ?hy1 False 0 \<or> ?y1 = DecimalValueNode ?hy1 0
             \<or> (?y1 = NullValueNode ?hy1 \<and> \<not> Pending (NodeType ?hy1))"
    by simp
  have null: "?x = NullValueNode ?hx \<or> ?y1 = NullValueNode ?hy1" by simp
  show ?thesis
    using null_operand_precedes_zero_divisor [where ta = None, OF b types obj sub null]
    by (simp add: verifyTypeAction_def SetType_def copySpan_def SetToken_def SetLength_def
          SetPosition_def GetToken_def GetLength_def GetPosition_def GetType_def
          zeroHeader_def)
qed

end
